theory Spec2Isabelle
  imports Complex_Main "HOL-Library.Sublist"
begin

section \<open>JavaScript values and errors\<close>

text \<open>
  The syntax trees that \<^verbatim>\<open>TestUtil.js\<close> handles are plain JavaScript values: objects
  (a node, a location record), arrays (a body, an argument list) and scalar leaves.
  An object is the list of its own enumerable properties in enumeration order, the order
  in which \<^verbatim>\<open>for (const p in node)\<close> visits them (these trees are plain data, as
  the parser returns them; objects with a prototype chain have a section of their own
  below); an array is the list of its
  elements.
  Numbers are leaves that the code never inspects. A string is the list of its code
  units, so \<open>length\<close> is \<^verbatim>\<open>.length\<close> (one \<open>char\<close> stands for one code unit).
\<close>

datatype jsval =
    JUndefined
  | JNull
  | JBool bool
  | JNum real
  | JStr string
  | JArr "jsval list"
  | JObj "(string \<times> jsval) list"

text \<open>A thrown value: the constructor's name, \<^verbatim>\<open>.message\<close> and \<^verbatim>\<open>.stack\<close>.\<close>

datatype js_error = JsError (ctor: string) (message: string) (stack: string)

text \<open>Sequencing of statements that may throw: the first exception ends the block.\<close>

definition bindE :: "js_error + 'a \<Rightarrow> ('a \<Rightarrow> js_error + 'b) \<Rightarrow> js_error + 'b" where
  "bindE r k = (case r of Inl e \<Rightarrow> Inl e | Inr v \<Rightarrow> k v)"

text \<open>
  \<^verbatim>\<open>delete node[key]\<close> in strict mode throws a TypeError when \<open>node\<close> is \<^verbatim>\<open>null\<close> or
  \<^verbatim>\<open>undefined\<close>. The engine's stack text is not modelled.
\<close>

definition nullishTypeError :: js_error where
  "nullishTypeError = JsError ''TypeError'' ''Cannot convert undefined or null to object'' []"

section \<open>stripMeta\<close>

definition IGNORE_KEYS :: "string list" where
  "IGNORE_KEYS =
     [''__clone'', ''start'', ''end'', ''raw'', ''rawValue'', ''loc'', ''tokens'',
      ''parenthesized'', ''parenStart'']"

text \<open>The options bag of the public API: \<^verbatim>\<open>options?: {comments?: boolean}\<close>.\<close>

record options =
  comments :: "bool option"

text \<open>The test \<^verbatim>\<open>options && options.comments\<close>.\<close>

definition keepComments :: "options option \<Rightarrow> bool" where
  "keepComments options =
     (case options of None \<Rightarrow> False | Some opts \<Rightarrow> comments opts = Some True)"

definition ignoreKeys :: "options option \<Rightarrow> string list" where
  "ignoreKeys options =
     (if keepComments options then IGNORE_KEYS
      else IGNORE_KEYS @ [''leadingComments'', ''trailingComments''])"

text \<open>\<^verbatim>\<open>delete node[key]\<close> on the property list of an object.\<close>

definition deleteKey :: "string \<Rightarrow> (string \<times> 'v) list \<Rightarrow> (string \<times> 'v) list" where
  "deleteKey key props = filter (\<lambda>(p, v). p \<noteq> key) props"

text \<open>\<^verbatim>\<open>ignoreKeys.forEach(key => delete node[key])\<close>.\<close>

definition deleteKeys :: "string list \<Rightarrow> (string \<times> 'v) list \<Rightarrow> (string \<times> 'v) list" where
  "deleteKeys keys props = fold deleteKey keys props"

text \<open>The guard \<^verbatim>\<open>node[p] && typeof node[p] === 'object'\<close>: \<^verbatim>\<open>null\<close> is falsy.\<close>

fun isObject :: "jsval \<Rightarrow> bool" where
  "isObject (JObj props) = True"
| "isObject (JArr elems) = True"
| "isObject v = False"

text \<open>
  The body of the \<^verbatim>\<open>for ... in\<close> loop over the property values in enumeration order:
  a value that passes the guard is visited (and replaced by what the visit leaves of it),
  any other value stays; an exception of a visit ends the loop.
\<close>

fun forIn :: "(jsval \<Rightarrow> js_error + jsval) \<Rightarrow> jsval list \<Rightarrow> js_error + jsval list" where
  "forIn visit [] = Inr []"
| "forIn visit (v # vs) =
     bindE (if isObject v then visit v else Inr v)
       (\<lambda>v'. bindE (forIn visit vs) (\<lambda>vs'. Inr (v' # vs')))"

lemma forIn_cong [fundef_cong]:
  "vs = ws \<Longrightarrow> (\<And>v. v \<in> set ws \<Longrightarrow> isObject v \<Longrightarrow> f v = g v) \<Longrightarrow> forIn f vs = forIn g ws"
  by (induction ws arbitrary: vs) auto

lemma deleteKeys_filter: "deleteKeys keys props = filter (\<lambda>(p, v). p \<notin> set keys) props"
  unfolding deleteKeys_def
proof (induction keys arbitrary: props)
  case Nil
  show ?case by simp
next
  case (Cons key keys)
  have "fold deleteKey (key # keys) props = fold deleteKey keys (deleteKey key props)" by simp
  also have "\<dots> = filter (\<lambda>(p, v). p \<notin> set keys) (deleteKey key props)" by (rule Cons.IH)
  also have "\<dots> = filter (\<lambda>(p, v). p \<notin> set (key # keys)) props"
    by (auto simp: deleteKey_def intro: filter_cong)
  finally show ?case .
qed

lemma set_deleteKeys_subset: "set (deleteKeys keys props) \<subseteq> set props"
  by (simp add: deleteKeys_filter)

lemma size_prop_value: "(p, v) \<in> set props \<Longrightarrow> size v < Suc (size_list (size_prod (\<lambda>_. 0) size) props)"
  by (induction props) auto

text \<open>
  \<^verbatim>\<open>stripMeta(node, options)\<close>. The deletions come first; they throw on \<^verbatim>\<open>null\<close> and
  \<^verbatim>\<open>undefined\<close>, find nothing to delete on a boolean, number or string, and none of the
  ignored names is an index of an array. The loop then visits the remaining properties
  (the elements, for an array); a primitive has no property whose value is an object.
  The code mutates \<open>node\<close> and returns it: the model returns the tree as it is afterwards.
  A tree is a value: it has no cycle, and a part that two places of it share is the same
  value at both, stripped to the same result wherever it is reached.
\<close>

function stripMeta :: "jsval \<Rightarrow> options option \<Rightarrow> js_error + jsval" where
  "stripMeta JUndefined options = Inl nullishTypeError"
| "stripMeta JNull options = Inl nullishTypeError"
| "stripMeta (JBool b) options = Inr (JBool b)"
| "stripMeta (JNum n) options = Inr (JNum n)"
| "stripMeta (JStr s) options = Inr (JStr s)"
| "stripMeta (JArr elems) options =
     bindE (forIn (\<lambda>v. stripMeta v options) elems) (\<lambda>elems'. Inr (JArr elems'))"
| "stripMeta (JObj props) options =
     (let props' = deleteKeys (ignoreKeys options) props in
      bindE (forIn (\<lambda>v. stripMeta v options) (map snd props'))
        (\<lambda>vs'. Inr (JObj (zip (map fst props') vs'))))"
  by pat_completeness auto
termination
proof (relation "measure (\<lambda>(node, options). size node)")
  show "wf (measure (\<lambda>(node, options). size node))" by simp
next
  fix elems :: "jsval list" and options :: "options option" and v
  assume "v \<in> set elems"
  then have "size v < Suc (size_list size elems)"
    by (induction elems) auto
  then show "((v, options), (JArr elems, options)) \<in> measure (\<lambda>(node, options). size node)"
    by simp
next
  fix props :: "(string \<times> jsval) list" and options :: "options option" and props' v
  assume p: "props' = deleteKeys (ignoreKeys options) props" and v: "v \<in> set (map snd props')"
  from v obtain k where "(k, v) \<in> set props'" by auto
  with p set_deleteKeys_subset have "(k, v) \<in> set props" by blast
  then have "size v < Suc (size_list (size_prod (\<lambda>_. 0) size) props)"
    by (rule size_prop_value)
  then show "((v, options), (JObj props, options)) \<in> measure (\<lambda>(node, options). size node)"
    by simp
qed

text \<open>
  What stripping is meant to compute, in the words of the specification: the fields of
  the exclusion set removed from every node, mapping or array, at every depth, and
  every other value left as it is.
\<close>

fun strip_spec :: "string list \<Rightarrow> jsval \<Rightarrow> jsval" where
  "strip_spec keys (JObj props) =
     JObj (map (\<lambda>(p, v). (p, strip_spec keys v)) (filter (\<lambda>(p, v). p \<notin> set keys) props))"
| "strip_spec keys (JArr elems) = JArr (map (strip_spec keys) elems)"
| "strip_spec keys v = v"

text \<open>The values of a tree: the tree itself and, recursively, every property value and element.\<close>

fun nodes :: "jsval \<Rightarrow> jsval list" where
  "nodes (JObj props) = JObj props # concat (map (\<lambda>(p, v). nodes v) props)"
| "nodes (JArr elems) = JArr elems # concat (map nodes elems)"
| "nodes v = [v]"

text \<open>The names of the own properties of a mapping (none of an array's indices is a name).\<close>

fun propertyNames :: "jsval \<Rightarrow> string list" where
  "propertyNames (JObj props) = map fst props"
| "propertyNames v = []"

text \<open>Reading a value at a path of property names and array indices.\<close>

datatype selector = Key string | Element nat

fun getPath :: "jsval \<Rightarrow> selector list \<Rightarrow> jsval option" where
  "getPath node [] = Some node"
| "getPath (JObj props) (Key p # path) =
     (case map_of props p of None \<Rightarrow> None | Some v \<Rightarrow> getPath v path)"
| "getPath (JArr elems) (Element i # path) =
     (if i < length elems then getPath (elems ! i) path else None)"
| "getPath node (sel # path) = None"

fun keysOf :: "selector list \<Rightarrow> string list" where
  "keysOf [] = []"
| "keysOf (Key p # path) = p # keysOf path"
| "keysOf (Element i # path) = keysOf path"

fun nullish :: "jsval \<Rightarrow> bool" where
  "nullish JUndefined = True"
| "nullish JNull = True"
| "nullish v = False"

section \<open>Objects with a prototype chain\<close>

text \<open>
  The loop of \<^verbatim>\<open>stripMeta\<close> is \<^verbatim>\<open>for (const p in node)\<close>, with no own-property test: it
  also visits the enumerable properties that \<open>node\<close> inherits through its prototype chain,
  each name once, a nearer property shadowing a farther one of the same name. The trees
  above are plain data. Here an object carries, besides its own enumerable properties,
  the enumerable own properties of each object of its prototype chain, nearest first.
\<close>

datatype pval =
    PUndefined
  | PNull
  | PBool bool
  | PNum real
  | PStr string
  | PArr "pval list"
  | PObj "(string \<times> pval) list" "(string \<times> pval) list list"

fun isObjectP :: "pval \<Rightarrow> bool" where
  "isObjectP (PObj own chain) = True"
| "isObjectP (PArr elems) = True"
| "isObjectP v = False"

text \<open>The loop over the elements of an array, as \<open>forIn\<close> above.\<close>

fun forInElements :: "(pval \<Rightarrow> js_error + pval) \<Rightarrow> pval list \<Rightarrow> js_error + pval list" where
  "forInElements visit [] = Inr []"
| "forInElements visit (v # vs) =
     bindE (if isObjectP v then visit v else Inr v)
       (\<lambda>v'. bindE (forInElements visit vs) (\<lambda>vs'. Inr (v' # vs')))"

text \<open>
  The part of the loop over the properties of one object of the chain: a name that the
  loop has seen on a nearer object is not visited again; the value of any other property
  is visited when it passes the guard. The visit changes the value where it is.
\<close>

fun forInLevel ::
  "(pval \<Rightarrow> js_error + pval) \<Rightarrow> string list \<Rightarrow> (string \<times> pval) list \<Rightarrow>
   js_error + (string \<times> pval) list" where
  "forInLevel visit seen [] = Inr []"
| "forInLevel visit seen ((p, v) # rest) =
     bindE (if p \<notin> set seen \<and> isObjectP v then visit v else Inr v)
       (\<lambda>v'. bindE (forInLevel visit seen rest) (\<lambda>rest'. Inr ((p, v') # rest')))"

text \<open>The loop along the chain: the names of each object are seen from then on.\<close>

fun forInChain ::
  "(pval \<Rightarrow> js_error + pval) \<Rightarrow> string list \<Rightarrow> (string \<times> pval) list list \<Rightarrow>
   js_error + (string \<times> pval) list list" where
  "forInChain visit seen [] = Inr []"
| "forInChain visit seen (level # chain) =
     bindE (forInLevel visit seen level)
       (\<lambda>level'. bindE (forInChain visit (seen @ map fst level) chain)
          (\<lambda>chain'. Inr (level' # chain')))"

lemma forInElements_cong [fundef_cong]:
  "vs = ws \<Longrightarrow> (\<And>v. v \<in> set ws \<Longrightarrow> isObjectP v \<Longrightarrow> f v = g v) \<Longrightarrow>
   forInElements f vs = forInElements g ws"
  by (induction ws arbitrary: vs) auto

lemma forInLevel_eq:
  "(\<And>p v. (p, v) \<in> set level \<Longrightarrow> isObjectP v \<Longrightarrow> f v = g v) \<Longrightarrow>
   forInLevel f seen level = forInLevel g seen level"
proof (induction level)
  case Nil
  show ?case by simp
next
  case (Cons pv level)
  obtain p v where pv: "pv = (p, v)" by (cases pv)
  have tail: "forInLevel f seen level = forInLevel g seen level"
    using Cons.prems by (intro Cons.IH) auto
  have head: "isObjectP v \<Longrightarrow> f v = g v"
    using Cons.prems [of p v] by (simp add: pv)
  show ?case
    by (cases "isObjectP v") (simp_all add: pv tail head)
qed

lemma forInLevel_cong [fundef_cong]:
  "seen = seen' \<Longrightarrow> level = level' \<Longrightarrow>
   (\<And>p v. (p, v) \<in> set level' \<Longrightarrow> isObjectP v \<Longrightarrow> f v = g v) \<Longrightarrow>
   forInLevel f seen level = forInLevel g seen' level'"
  using forInLevel_eq [of level' f g seen'] by simp

lemma forInChain_eq:
  "(\<And>level p v. level \<in> set chain \<Longrightarrow> (p, v) \<in> set level \<Longrightarrow> isObjectP v \<Longrightarrow> f v = g v) \<Longrightarrow>
   forInChain f seen chain = forInChain g seen chain"
proof (induction chain arbitrary: seen)
  case Nil
  show ?case by simp
next
  case (Cons level chain)
  have "forInLevel f seen level = forInLevel g seen level"
    using Cons.prems by (intro forInLevel_eq) auto
  moreover have "forInChain f (seen @ map fst level) chain = forInChain g (seen @ map fst level) chain"
    using Cons.prems by (intro Cons.IH) auto
  ultimately show ?case by simp
qed

lemma forInChain_cong [fundef_cong]:
  "seen = seen' \<Longrightarrow> chain = chain' \<Longrightarrow>
   (\<And>level p v. level \<in> set chain' \<Longrightarrow> (p, v) \<in> set level \<Longrightarrow> isObjectP v \<Longrightarrow> f v = g v) \<Longrightarrow>
   forInChain f seen chain = forInChain g seen' chain'"
  using forInChain_eq [of chain' f g seen'] by simp





text \<open>
  What the pass computes on these values, in words: the excluded own fields removed, and
  every value that the loop visits and that is an object stripped in the same way, the
  own ones and the inherited ones that no nearer property shadows.
\<close>

definition visitedLevel ::
  "(pval \<Rightarrow> pval) \<Rightarrow> string list \<Rightarrow> (string \<times> pval) list \<Rightarrow> (string \<times> pval) list" where
  "visitedLevel f seen level =
     map (\<lambda>(p, v). (p, if p \<notin> set seen \<and> isObjectP v then f v else v)) level"

fun visitedChain ::
  "(pval \<Rightarrow> pval) \<Rightarrow> string list \<Rightarrow> (string \<times> pval) list list \<Rightarrow> (string \<times> pval) list list" where
  "visitedChain f seen [] = []"
| "visitedChain f seen (level # chain) =
     visitedLevel f seen level # visitedChain f (seen @ map fst level) chain"

lemma visitedLevel_cong [fundef_cong]:
  "seen = seen' \<Longrightarrow> level = level' \<Longrightarrow>
   (\<And>p v. (p, v) \<in> set level' \<Longrightarrow> isObjectP v \<Longrightarrow> f v = g v) \<Longrightarrow>
   visitedLevel f seen level = visitedLevel g seen' level'"
  by (auto simp: visitedLevel_def)

lemma visitedChain_eq:
  "(\<And>level p v. level \<in> set chain \<Longrightarrow> (p, v) \<in> set level \<Longrightarrow> isObjectP v \<Longrightarrow> f v = g v) \<Longrightarrow>
   visitedChain f seen chain = visitedChain g seen chain"
proof (induction chain arbitrary: seen)
  case Nil
  show ?case by simp
next
  case (Cons level chain)
  have "visitedLevel f seen level = visitedLevel g seen level"
    using Cons.prems by (intro visitedLevel_cong) auto
  moreover have "visitedChain f (seen @ map fst level) chain = visitedChain g (seen @ map fst level) chain"
    using Cons.prems by (intro Cons.IH) auto
  ultimately show ?case by simp
qed

lemma visitedChain_cong [fundef_cong]:
  "seen = seen' \<Longrightarrow> chain = chain' \<Longrightarrow>
   (\<And>level p v. level \<in> set chain' \<Longrightarrow> (p, v) \<in> set level \<Longrightarrow> isObjectP v \<Longrightarrow> f v = g v) \<Longrightarrow>
   visitedChain f seen chain = visitedChain g seen' chain'"
  using visitedChain_eq [of chain' f g seen'] by simp



text \<open>A plain tree as such a value: its objects inherit no enumerable property.\<close>

fun embed :: "jsval \<Rightarrow> pval" where
  "embed JUndefined = PUndefined"
| "embed JNull = PNull"
| "embed (JBool b) = PBool b"
| "embed (JNum n) = PNum n"
| "embed (JStr s) = PStr s"
| "embed (JArr elems) = PArr (map embed elems)"
| "embed (JObj props) = PObj (map (\<lambda>(p, v). (p, embed v)) props) []"

section \<open>The external toolchain\<close>

text \<open>
  The parser, the printer, the assertion library and the diff renderer are libraries the
  file requires. They are parameters of the model: functions of their arguments, with the
  options the code passes to them.
\<close>

record parserOptions =
  sourceType :: string
  plugins :: "string list"

record generatorOptions =
  gen_comments :: bool
  gen_quotes :: "string option"

text \<open>
  Babel's File node, as \<^verbatim>\<open>babelParser.parse\<close> returns it. The code reads its
  \<^verbatim>\<open>program\<close>; the other fields go to the printer with it.
\<close>

record fileNode =
  program :: jsval
  others :: "(string \<times> jsval) list"

text \<open>The result object of \<^verbatim>\<open>generate\<close> and of \<^verbatim>\<open>babel.transformSync\<close>.\<close>

record codeResult =
  code :: string

record toolchain =
  babelParser_parse :: "string \<Rightarrow> parserOptions \<Rightarrow> js_error + fileNode"
  generate :: "fileNode \<Rightarrow> generatorOptions \<Rightarrow> string \<Rightarrow> codeResult"
  assertionError :: "jsval \<Rightarrow> jsval \<Rightarrow> js_error"
  jsonDiff_diffString :: "jsval \<Rightarrow> jsval \<Rightarrow> string"

text \<open>
  Modelled from the spec: the comparison of \<^verbatim>\<open>assert.deepStrictEqual\<close>, which is Node's
  and not in the repository: "deep structural equality on the two resulting trees
  (order-sensitive for arrays, key-set and value-sensitive for mappings)". Two mappings
  are equal when they have the same names and equal values under each name; two arrays
  when they have equal elements at the same positions; two scalars when they are the same.
\<close>

lemma list_all2_fundef_cong [fundef_cong]:
  "xs = xs' \<Longrightarrow> ys = ys' \<Longrightarrow> (\<And>x y. x \<in> set xs' \<Longrightarrow> y \<in> set ys' \<Longrightarrow> P x y = Q x y) \<Longrightarrow>
   list_all2 P xs ys = list_all2 Q xs' ys'"
  by (simp cong: list.rel_cong)

function deepEqual :: "jsval \<Rightarrow> jsval \<Rightarrow> bool" where
  "deepEqual (JObj props) (JObj props') =
     (set (map fst props) = set (map fst props') \<and>
      list_all (\<lambda>p. case map_of props p of None \<Rightarrow> False
                 | Some v \<Rightarrow> (case map_of props' p of None \<Rightarrow> False | Some v' \<Rightarrow> deepEqual v v'))
        (map fst props))"
| "deepEqual (JArr elems) (JArr elems') = list_all2 deepEqual elems elems'"
| "deepEqual (JObj props) (JArr elems') = False"
| "deepEqual (JArr elems) (JObj props') = False"
| "deepEqual JUndefined b = (b = JUndefined)"
| "deepEqual JNull b = (b = JNull)"
| "deepEqual (JBool x) b = (b = JBool x)"
| "deepEqual (JNum x) b = (b = JNum x)"
| "deepEqual (JStr x) b = (b = JStr x)"
| "deepEqual (JObj props) JUndefined = False"
| "deepEqual (JObj props) JNull = False"
| "deepEqual (JObj props) (JBool y) = False"
| "deepEqual (JObj props) (JNum y) = False"
| "deepEqual (JObj props) (JStr y) = False"
| "deepEqual (JArr elems) JUndefined = False"
| "deepEqual (JArr elems) JNull = False"
| "deepEqual (JArr elems) (JBool y) = False"
| "deepEqual (JArr elems) (JNum y) = False"
| "deepEqual (JArr elems) (JStr y) = False"
  by pat_completeness auto
termination
proof (relation "measure (\<lambda>(a, b). size a)")
  show "wf (measure (\<lambda>(a, b). size a))" by simp
next
  fix props props' :: "(string \<times> jsval) list" and p v v'
  assume "map_of props p = Some v"
  then have "(p, v) \<in> set props" by (rule map_of_SomeD)
  then have "size v < Suc (size_list (size_prod (\<lambda>_. 0) size) props)"
    by (rule size_prop_value)
  then show "((v, v'), (JObj props, JObj props')) \<in> measure (\<lambda>(a, b). size a)"
    by simp
next
  fix elems elems' :: "jsval list" and x y
  assume "x \<in> set elems"
  then have "size x < Suc (size_list size elems)"
    by (induction elems) auto
  then show "((x, y), (JArr elems, JArr elems')) \<in> measure (\<lambda>(a, b). size a)"
    by simp
qed

text \<open>
  \<^verbatim>\<open>assert.deepStrictEqual(actual, expected)\<close>: returns when the two are equal, and
  otherwise throws the AssertionError the library builds for them.
\<close>

definition deepStrictEqual :: "toolchain \<Rightarrow> jsval \<Rightarrow> jsval \<Rightarrow> js_error + unit" where
  "deepStrictEqual tc actual expected =
     (if deepEqual actual expected then Inr () else Inl (assertionError tc actual expected))"

section \<open>Strings\<close>

text \<open>
  \<^verbatim>\<open>String.prototype.trim\<close> removes white space and line terminators at both ends (of
  the code units below 256: tab, line feed, vertical tab, form feed, carriage return,
  space and no-break space).
\<close>

definition isWhiteSpace :: "char \<Rightarrow> bool" where
  "isWhiteSpace c = (of_char c \<in> {9, 10, 11, 12, 13, 32, 160 :: nat})"

definition trim :: "string \<Rightarrow> string" where
  "trim s = rev (dropWhile isWhiteSpace (rev (dropWhile isWhiteSpace s)))"

text \<open>\<^verbatim>\<open>s.charAt(i)\<close>: the code unit at \<open>i\<close> as a string, empty out of range.\<close>

definition charAt :: "'a list \<Rightarrow> nat \<Rightarrow> 'a list" where
  "charAt s i = (if i < length s then [s ! i] else [])"

text \<open>\<^verbatim>\<open>s.substr(start, len)\<close> for a start and a length that are not negative.\<close>

definition substr :: "'a list \<Rightarrow> nat \<Rightarrow> nat \<Rightarrow> 'a list" where
  "substr s start len = take len (drop start s)"

text \<open>A number in a template literal: its decimal digits.\<close>

function toString :: "nat \<Rightarrow> string" where
  "toString n =
     (if n < 10 then [''0123456789'' ! n]
      else toString (n div 10) @ [''0123456789'' ! (n mod 10)])"
  by pat_completeness auto
termination
  by (relation "measure (\<lambda>n. n)") auto

declare toString.simps [simp del]

text \<open>
  The loop of \<^verbatim>\<open>firstCommonSubstring\<close>, from the value \<open>i\<close> of its counter on: the value
  of the counter when the loop ends, by its condition or by \<^verbatim>\<open>break\<close>.
\<close>

function scan :: "'a list \<Rightarrow> 'a list \<Rightarrow> nat \<Rightarrow> nat" where
  "scan left right i =
     (if i < length left \<and> i < length right
      then (if charAt left i \<noteq> charAt right i then i else scan left right (Suc i))
      else i)"
  by pat_completeness auto
termination
  by (relation "measure (\<lambda>(left, right, i). length left - i)") auto

declare scan.simps [simp del]

definition firstCommonSubstring :: "'a list \<Rightarrow> 'a list \<Rightarrow> 'a list" where
  "firstCommonSubstring left right = substr left 0 (scan left right 0)"

section \<open>Parsing, printing and the comparison\<close>

definition parse :: "toolchain \<Rightarrow> string \<Rightarrow> js_error + fileNode" where
  "parse tc code' =
     babelParser_parse tc code' \<lparr>sourceType = ''module'', plugins = [''flow'', ''jsx'']\<rparr>"

definition prettyPrint :: "toolchain \<Rightarrow> string \<Rightarrow> js_error + string" where
  "prettyPrint tc input =
     bindE (parse tc input)
       (\<lambda>ast. Inr (trim (code (generate tc ast \<lparr>gen_comments = True, gen_quotes = None\<rparr> input))))"

definition normalizeSourceCode :: "toolchain \<Rightarrow> string \<Rightarrow> js_error + string" where
  "normalizeSourceCode tc sourceCode =
     bindE (parse tc sourceCode)
       (\<lambda>ast. Inr (trim (code (generate tc ast
          \<lparr>gen_comments = True, gen_quotes = Some ''single''\<rparr> sourceCode))))"

text \<open>
  The template literal of the failure message, as a function of the seven values it
  interpolates.
\<close>

definition errMessage ::
  "string \<Rightarrow> string \<Rightarrow> string \<Rightarrow> nat \<Rightarrow> string \<Rightarrow> string \<Rightarrow> string \<Rightarrow> string" where
  "errMessage expectedFormattedCode actualFormattedCode commonStr excerptLength
     excerptDiffFromExpected excerptDiffFromActual astDiff =
     ''deepEqual node AST assert failed for the following code:\<newline>\<newline>'' @
     ''Expected output: <<<'' @ expectedFormattedCode @ ''>>>\<newline>\<newline>'' @
     ''Actual output: <<<'' @ actualFormattedCode @ ''>>>\<newline>\<newline>'' @
     ''First common string: <<<'' @ commonStr @ ''>>>\<newline>\<newline>'' @
     ''The first difference is ('' @ toString excerptLength @ '' chars max):\<newline>\<newline>'' @
     ''Expected : <<<'' @ excerptDiffFromExpected @ ''>>>\<newline>\<newline>'' @
     ''Actual   : <<<'' @ excerptDiffFromActual @ ''>>>\<newline>\<newline>'' @
     ''AST diff:\<newline>====\<newline>'' @ astDiff @ ''\<newline>====\<newline>''"

text \<open>
  The \<^verbatim>\<open>catch (e)\<close> block of \<^verbatim>\<open>assertSourceAstEqual\<close>; it always ends by throwing.
  (It also writes the message to the console, which the model leaves out.)
\<close>

definition catchBlock ::
  "toolchain \<Rightarrow> string \<Rightarrow> string \<Rightarrow> jsval \<Rightarrow> jsval \<Rightarrow> js_error \<Rightarrow> js_error + unit" where
  "catchBlock tc expected actual expectedTree actualTree e =
     bindE (prettyPrint tc expected) (\<lambda>expectedFormattedCode.
     bindE (prettyPrint tc actual) (\<lambda>actualFormattedCode.
       let commonStr = firstCommonSubstring expectedFormattedCode actualFormattedCode;
           excerptLength = 60;
           excerptDiffFromExpected = substr expectedFormattedCode (length commonStr) excerptLength;
           excerptDiffFromActual = substr actualFormattedCode (length commonStr) excerptLength;
           err = JsError ''Error''
                   (errMessage expectedFormattedCode actualFormattedCode commonStr excerptLength
                      excerptDiffFromExpected excerptDiffFromActual
                      (jsonDiff_diffString tc actualTree expectedTree))
                   (stack e)
       in Inl err))"

definition assertSourceAstEqual ::
  "toolchain \<Rightarrow> string \<Rightarrow> string \<Rightarrow> options option \<Rightarrow> js_error + unit" where
  "assertSourceAstEqual tc expected actual options =
     bindE (bindE (bindE (normalizeSourceCode tc expected) (parse tc))
              (\<lambda>ast. stripMeta (program ast) options)) (\<lambda>expectedTree.
     bindE (bindE (bindE (normalizeSourceCode tc actual) (parse tc))
              (\<lambda>ast. stripMeta (program ast) options)) (\<lambda>actualTree.
       case deepStrictEqual tc actualTree expectedTree of
         Inr u \<Rightarrow> Inr ()
       | Inl e \<Rightarrow> catchBlock tc expected actual expectedTree actualTree e))"

text \<open>
  The Normalizer of the specification, in its words: parse, re-print in the canonical
  style (single-quoted string literals, comments retained), trim, re-parse the canonical
  text, strip the excluded fields of the program.
\<close>

definition canonicalStyle :: generatorOptions where
  "canonicalStyle = \<lparr>gen_comments = True, gen_quotes = Some ''single''\<rparr>"

definition normalize_spec :: "toolchain \<Rightarrow> string \<Rightarrow> options option \<Rightarrow> js_error + jsval" where
  "normalize_spec tc sourceText options =
     (case parse tc sourceText of
        Inl e \<Rightarrow> Inl e
      | Inr tree \<Rightarrow>
          (case parse tc (trim (code (generate tc tree canonicalStyle sourceText))) of
             Inl e \<Rightarrow> Inl e
           | Inr canonical \<Rightarrow> stripMeta (program canonical) options))"

section \<open>The test runner\<close>

text \<open>
  One entry of the test table. \<^verbatim>\<open>throws\<close> is any value (\<^verbatim>\<open>undefined\<close> when the entry
  has no such key); the entry's \<^verbatim>\<open>options\<close> (here \<open>testOptions\<close>) go to the transform as
  they are. \<^verbatim>\<open>testSection\<close> returns the tests it registers, each with its name and
  whether it passes when run.
\<close>

record testInfo =
  input :: string
  output' :: string
  throws :: jsval
  testOptions :: jsval

type_synonym transform = "string \<Rightarrow> jsval \<Rightarrow> js_error + string"

text \<open>
  Modelled from the spec: the matchers of the test framework, which is not in the
  repository. \<^verbatim>\<open>expect(f).toThrow()\<close> holds when calling \<open>f\<close> throws,
  \<^verbatim>\<open>expect(f).toThrow(substring)\<close> when it throws an error whose message contains the
  substring, \<^verbatim>\<open>expect(f).not.toThrow()\<close> when it returns. The argument is the outcome of
  calling \<open>f\<close>. A test passes when its body returns, and an expectation that does not hold
  throws.
\<close>

definition toThrow :: "js_error + 'a \<Rightarrow> bool" where
  "toThrow outcome = (case outcome of Inl e \<Rightarrow> True | Inr v \<Rightarrow> False)"

definition toThrowMessage :: "js_error + 'a \<Rightarrow> string \<Rightarrow> bool" where
  "toThrowMessage outcome substring =
     (case outcome of Inl e \<Rightarrow> sublist substring (message e) | Inr v \<Rightarrow> False)"

definition notToThrow :: "js_error + 'a \<Rightarrow> bool" where
  "notToThrow outcome = (case outcome of Inl e \<Rightarrow> False | Inr v \<Rightarrow> True)"

text \<open>
  The body that \<^verbatim>\<open>testSection\<close> registers for one entry: whether the test passes.
  The branches are the source's, in its order: \<^verbatim>\<open>throws === true\<close>, then
  \<^verbatim>\<open>typeof throws === 'string'\<close> (the case \<open>JStr\<close>), then \<^verbatim>\<open>throws === false\<close>,
  then everything else. In the third branch the body calls the transform and drops its
  result; in the last the call of the transform is inside the function given to
  \<^verbatim>\<open>expect\<close>, before the comparison.
\<close>

definition testBody :: "toolchain \<Rightarrow> testInfo \<Rightarrow> transform \<Rightarrow> options option \<Rightarrow> bool" where
  "testBody tc testInfo transform options =
     (if throws testInfo = JBool True then
        toThrow (transform (input testInfo) (testOptions testInfo))
      else (case throws testInfo of
        JStr substring \<Rightarrow>
          toThrowMessage (transform (input testInfo) (testOptions testInfo)) substring
      | _ \<Rightarrow>
        if throws testInfo = JBool False then
          (case transform (input testInfo) (testOptions testInfo) of
             Inl e \<Rightarrow> False | Inr result \<Rightarrow> True)
        else
          notToThrow
            (bindE (transform (input testInfo) (testOptions testInfo))
               (\<lambda>result. assertSourceAstEqual tc (output' testInfo) result options))))"

text \<open>\<^verbatim>\<open>testSection\<close>: one test per key of the table, under the key's name.\<close>

definition testSection ::
  "toolchain \<Rightarrow> (string \<times> testInfo) list \<Rightarrow> transform \<Rightarrow> options option \<Rightarrow> (string \<times> bool) list" where
  "testSection tc testData transform options =
     map (\<lambda>(test, testInfo). (test, testBody tc testInfo transform options)) testData"

text \<open>
  \<^verbatim>\<open>babel.transformSync(source, {plugins})\<close> is a parameter. The function that
  \<^verbatim>\<open>getDefaultTransformForPlugins\<close> returns declares one parameter, \<open>source\<close>; a second
  argument of a call is dropped.
\<close>

definition getDefaultTransformForPlugins ::
  "(string \<Rightarrow> 'p \<Rightarrow> js_error + codeResult) \<Rightarrow> 'p \<Rightarrow> transform" where
  "getDefaultTransformForPlugins transformSync plugs =
     (\<lambda>source dropped. bindE (transformSync source plugs) (\<lambda>result. Inr (code result)))"

text \<open>\<^verbatim>\<open>testCase\<close>: the tests of \<^verbatim>\<open>testSection\<close> in a group of the given name.\<close>

definition testCase ::
  "toolchain \<Rightarrow> (string \<Rightarrow> 'p \<Rightarrow> js_error + codeResult) \<Rightarrow> string \<Rightarrow> 'p \<Rightarrow>
   (string \<times> testInfo) list \<Rightarrow> options option \<Rightarrow> string \<times> (string \<times> bool) list" where
  "testCase tc transformSync name plugs testData options =
     (name, testSection tc testData (getDefaultTransformForPlugins transformSync plugs) options)"

section \<open>Example inputs\<close>

text \<open>Two small trees, with the positions and comments a parser attaches.\<close>

definition exampleNode :: jsval where
  "exampleNode =
     JObj [(''type'', JStr ''Identifier''), (''start'', JNum 4), (''end'', JNum 5),
           (''loc'', JObj [(''start'', JObj [(''line'', JNum 1), (''column'', JNum 4)])]),
           (''name'', JStr ''x''),
           (''leadingComments'',
              JArr [JObj [(''type'', JStr ''CommentBlock''), (''value'', JStr '' c ''),
                          (''start'', JNum 0), (''end'', JNum 3)]])]"


text \<open>
  A small toolchain to run the comparison on: its parser rejects a text that contains an
  exclamation mark and otherwise makes a program node of the text without its blanks and
  semicolons; its printer prints that text back, with a semicolon and a blank after it.
\<close>

definition toyParse :: "string \<Rightarrow> parserOptions \<Rightarrow> js_error + fileNode" where
  "toyParse text opts =
     (if CHR ''!'' \<in> set text
      then Inl (JsError ''SyntaxError'' ''Unexpected token'' ''at toyParse'')
      else Inr \<lparr>program =
                  JObj [(''type'', JStr ''Program''), (''start'', JNum 0),
                        (''end'', JNum (of_nat (length text))),
                        (''body'', JStr (filter (\<lambda>c. c \<noteq> CHR '' '' \<and> c \<noteq> CHR '';'') text))],
                others = []\<rparr>)"

definition toyGenerate :: "fileNode \<Rightarrow> generatorOptions \<Rightarrow> string \<Rightarrow> codeResult" where
  "toyGenerate ast opts text =
     \<lparr>code = (case program ast of
                JObj props \<Rightarrow> (case map_of props ''body'' of Some (JStr b) \<Rightarrow> b @ ''; '' | _ \<Rightarrow> [])
              | _ \<Rightarrow> [])\<rparr>"

definition toyToolchain :: toolchain where
  "toyToolchain =
     \<lparr>babelParser_parse = toyParse,
      generate = toyGenerate,
      assertionError = (\<lambda>actual expected.
         JsError ''AssertionError'' ''Expected values to be strictly deep-equal'' ''at deepStrictEqual''),
      jsonDiff_diffString = (\<lambda>actual expected. ''(diff)'')\<rparr>"

text \<open>
  The same toolchain with a printer that prints an exclamation mark, which the parser
  rejects, for a source text with a question mark in it.
\<close>

definition oddToolchain :: toolchain where
  "oddToolchain =
     toyToolchain\<lparr>generate :=
       (\<lambda>ast opts text. if CHR ''?'' \<in> set text then \<lparr>code = ''!''\<rparr> else toyGenerate ast opts text)\<rparr>"

text \<open>
  A transformSync that appends its plugin's ending to the source and throws on an
  exclamation mark, the default transform for the ending \<open>;\<close>, and a test table.
\<close>

definition toySync :: "string \<Rightarrow> string \<Rightarrow> js_error + codeResult" where
  "toySync source ending =
     (if CHR ''!'' \<in> set source
      then Inl (JsError ''Error'' ''transform failed: bang'' ''at toySync'')
      else Inr \<lparr>code = source @ ending\<rparr>)"

definition toyTransform :: transform where
  "toyTransform = getDefaultTransformForPlugins toySync '';''"

definition toyTable :: "(string \<times> testInfo) list" where
  "toyTable =
     [(''throws'', \<lparr>input = ''x = !'', output' = [], throws = JBool True, testOptions = JUndefined\<rparr>),
      (''throws bang'', \<lparr>input = ''x = !'', output' = [], throws = JStr ''bang'', testOptions = JUndefined\<rparr>),
      (''throws bong'', \<lparr>input = ''x = !'', output' = [], throws = JStr ''bong'', testOptions = JUndefined\<rparr>),
      (''does not throw'', \<lparr>input = ''x = 1'', output' = ''x = 2;'', throws = JBool False, testOptions = JUndefined\<rparr>),
      (''adds semicolon'', \<lparr>input = ''x = 1'', output' = ''x=1;'', throws = JUndefined, testOptions = JUndefined\<rparr>),
      (''wrong output'', \<lparr>input = ''x = 1'', output' = ''x = 2;'', throws = JUndefined, testOptions = JUndefined\<rparr>),
      (''unexpected throw'', \<lparr>input = ''x = !'', output' = ''x = !'', throws = JUndefined, testOptions = JUndefined\<rparr>)]"


section \<open>What stripMeta computes\<close>

lemma without_scalar: "\<not> isObject v \<Longrightarrow> strip_spec keys v = v"
  by (cases v) auto

lemma bindE_Inr [simp]: "bindE (Inr v) k = k v"
  by (simp add: bindE_def)

lemma bindE_Inl [simp]: "bindE (Inl e) k = Inl e"
  by (simp add: bindE_def)

lemma forIn_total:
  "(\<And>v. v \<in> set vs \<Longrightarrow> isObject v \<Longrightarrow> visit v = Inr (g v)) \<Longrightarrow>
   forIn visit vs = Inr (map (\<lambda>v. if isObject v then g v else v) vs)"
  by (induction vs) auto

lemma zip_fst_map_snd: "zip (map fst ps) (map (\<lambda>v. f v) (map snd ps)) = map (\<lambda>(p, v). (p, f v)) ps"
  by (induction ps) auto

lemma guarded_without: "(\<lambda>v. if isObject v then strip_spec keys v else v) = strip_spec keys"
  by (rule ext) (simp add: without_scalar)

lemma stripMeta_object:
  "isObject node \<Longrightarrow> stripMeta node options = Inr (strip_spec (ignoreKeys options) node)"
proof (induction node options rule: stripMeta.induct)
  case (6 elems options)
  have "forIn (\<lambda>v. stripMeta v options) elems =
        Inr (map (\<lambda>v. if isObject v then strip_spec (ignoreKeys options) v else v) elems)"
    by (rule forIn_total) (simp add: "6.IH")
  then show ?case by (simp add: guarded_without)
next
  case (7 props options)
  define props' where "props' = deleteKeys (ignoreKeys options) props"
  have "forIn (\<lambda>v. stripMeta v options) (map snd props') =
        Inr (map (\<lambda>v. if isObject v then strip_spec (ignoreKeys options) v else v) (map snd props'))"
    by (rule forIn_total) (use "7.IH" props'_def in blast)
  then have "stripMeta (JObj props) options =
        Inr (JObj (zip (map fst props') (map (\<lambda>v. strip_spec (ignoreKeys options) v) (map snd props'))))"
    by (simp add: props'_def Let_def guarded_without)
  then show ?case
    by (simp only: zip_fst_map_snd props'_def deleteKeys_filter strip_spec.simps)
qed simp_all

lemma stripMeta_eq:
  "stripMeta node options =
     (if nullish node then Inl nullishTypeError else Inr (strip_spec (ignoreKeys options) node))"
  by (cases node) (simp_all add: stripMeta_object del: stripMeta.simps(6,7))

lemma strip_props_idem:
  "(\<And>p v. (p, v) \<in> set props \<Longrightarrow> p \<notin> set keys \<Longrightarrow> f (f v) = f v) \<Longrightarrow>
   map (\<lambda>(p, v). (p, f v)) (filter (\<lambda>(p, v). p \<notin> set keys)
     (map (\<lambda>(p, v). (p, f v)) (filter (\<lambda>(p, v). p \<notin> set keys) props))) =
   map (\<lambda>(p, v). (p, f v)) (filter (\<lambda>(p, v). p \<notin> set keys) props)"
  by (induction props) auto

lemma without_idem: "strip_spec keys (strip_spec keys node) = strip_spec keys node"
proof (induction keys node rule: strip_spec.induct)
  case (1 keys props)
  have "\<And>p v. (p, v) \<in> set props \<Longrightarrow> p \<notin> set keys \<Longrightarrow>
        strip_spec keys (strip_spec keys v) = strip_spec keys v"
    using "1.IH" by fastforce
  then have "map (\<lambda>(p, v). (p, strip_spec keys v)) (filter (\<lambda>(p, v). p \<notin> set keys)
     (map (\<lambda>(p, v). (p, strip_spec keys v)) (filter (\<lambda>(p, v). p \<notin> set keys) props))) =
   map (\<lambda>(p, v). (p, strip_spec keys v)) (filter (\<lambda>(p, v). p \<notin> set keys) props)"
    by (rule strip_props_idem)
  then show ?case by (simp only: strip_spec.simps)
next
  case (2 keys elems)
  then show ?case by simp
qed simp_all

lemma nullish_without: "nullish (strip_spec keys node) = nullish node"
  by (cases node) auto

lemma map_of_without_props:
  "map_of (map (\<lambda>(p, v). (p, f v)) (filter (\<lambda>(p, v). p \<notin> set keys) props)) p =
     (if p \<in> set keys then None else map_option f (map_of props p))"
  by (induction props) auto

lemma getPath_without:
  "getPath (strip_spec keys node) path =
     (if set (keysOf path) \<inter> set keys = {} then map_option (strip_spec keys) (getPath node path)
      else None)"
proof (induction node path rule: getPath.induct)
  case (1 node)
  show ?case by simp
next
  case (2 props p path)
  show ?case
  proof (cases "p \<in> set keys")
    case True
    then show ?thesis by (simp add: map_of_without_props)
  next
    case False
    show ?thesis
    proof (cases "map_of props p")
      case None
      with False show ?thesis by (simp add: map_of_without_props)
    next
      case (Some v)
      with False "2.IH" [OF Some] show ?thesis by (simp add: map_of_without_props)
    qed
  qed
next
  case (3 elems i path)
  then show ?case by simp
qed simp_all

lemma propertyNames_without:
  "propertyNames (strip_spec keys (JObj props)) = filter (\<lambda>p. p \<notin> set keys) (map fst props)"
  by (induction props) auto

lemma nodes_without:
  "n \<in> set (nodes (strip_spec keys node)) \<Longrightarrow> key \<in> set keys \<Longrightarrow> key \<notin> set (propertyNames n)"
proof (induction keys node arbitrary: n rule: strip_spec.induct)
  case (1 keys props)
  show ?case
  proof (cases "n = strip_spec keys (JObj props)")
    case True
    with "1.prems"(2) show ?thesis by (simp add: propertyNames_without del: strip_spec.simps)
  next
    case False
    with "1.prems"(1) obtain p v where pv: "(p, v) \<in> set props" "p \<notin> set keys"
        "n \<in> set (nodes (strip_spec keys v))"
      by auto
    from "1.IH" [of "(p, v)" p v n] pv "1.prems"(2) show ?thesis by simp
  qed
next
  case (2 keys elems)
  show ?case
  proof (cases "n = strip_spec keys (JArr elems)")
    case True
    then show ?thesis by simp
  next
    case False
    with "2.prems"(1) obtain v where "v \<in> set elems" "n \<in> set (nodes (strip_spec keys v))"
      by auto
    with "2.IH" "2.prems"(2) show ?thesis by blast
  qed
qed auto









lemma isObjectP_embed: "isObjectP (embed t) = isObject t"
  by (cases t) simp_all




section \<open>What the comparison computes\<close>

lemma scan_lcp:
  "scan left right i = i + length (longest_common_prefix (drop i left) (drop i right))"
proof (induction left right i rule: scan.induct)
  case (1 left right i)
  show ?case
  proof (cases "i < length left \<and> i < length right")
    case True
    then have l: "drop i left = left ! i # drop (Suc i) left"
      and r: "drop i right = right ! i # drop (Suc i) right"
      by (simp_all add: Cons_nth_drop_Suc)
    show ?thesis
    proof (cases "left ! i = right ! i")
      case same: True
      with True have c: "\<not> charAt left i \<noteq> charAt right i"
        by (simp add: charAt_def)
      with True have "scan left right i = scan left right (Suc i)"
        by (subst scan.simps) simp
      also from True c have "\<dots> = Suc i + length (longest_common_prefix (drop (Suc i) left) (drop (Suc i) right))"
        by (rule "1.IH")
      finally show ?thesis using same by (simp add: l r)
    next
      case False
      with True have "charAt left i \<noteq> charAt right i"
        by (simp add: charAt_def)
      with True have "scan left right i = i"
        by (subst scan.simps) simp
      with False show ?thesis by (simp add: l r)
    qed
  next
    case False
    then have "drop i left = [] \<or> drop i right = []" by auto
    then have "longest_common_prefix (drop i left) (drop i right) = []"
      by (cases "drop i left") auto
    moreover have "scan left right i = i"
      by (subst scan.simps) (simp only: False if_False)
    ultimately show ?thesis by simp
  qed
qed

lemma firstCommonSubstring_lcp:
  "firstCommonSubstring left right = longest_common_prefix left right"
proof -
  have "prefix (longest_common_prefix left right) left"
    by (rule longest_common_prefix_prefix1)
  then obtain zs where "left = longest_common_prefix left right @ zs"
    by (auto simp: prefix_def)
  then have "take (length (longest_common_prefix left right)) left = longest_common_prefix left right"
    by (metis append_eq_conv_conj)
  then show ?thesis
    by (simp add: firstCommonSubstring_def substr_def scan_lcp)
qed

lemma lcp_mismatch:
  "length (longest_common_prefix xs ys) < length xs \<Longrightarrow>
   length (longest_common_prefix xs ys) < length ys \<Longrightarrow>
   xs ! length (longest_common_prefix xs ys) \<noteq> ys ! length (longest_common_prefix xs ys)"
  by (induction xs ys rule: longest_common_prefix.induct) auto

lemma normalize_eq:
  "normalize_spec tc sourceText options =
     bindE (bindE (normalizeSourceCode tc sourceText) (parse tc))
              (\<lambda>ast. stripMeta (program ast) options)"
  by (simp add: normalize_spec_def normalizeSourceCode_def canonicalStyle_def bindE_def
      split: sum.splits)

lemma bindE_return: "bindE r Inr = r"
  by (simp add: bindE_def split: sum.splits)

lemma assert_normalize:
  "assertSourceAstEqual tc expected actual options =
     bindE (normalize_spec tc expected options) (\<lambda>expectedTree.
     bindE (normalize_spec tc actual options) (\<lambda>actualTree.
       case deepStrictEqual tc actualTree expectedTree of
         Inr u \<Rightarrow> Inr ()
       | Inl e \<Rightarrow> catchBlock tc expected actual expectedTree actualTree e))"
  by (simp add: assertSourceAstEqual_def normalize_eq)

lemma normalize_parsed:
  "normalize_spec tc sourceText options = Inr tree \<Longrightarrow> \<exists>ast. parse tc sourceText = Inr ast"
  by (simp add: normalize_spec_def split: sum.splits)

lemma prettyPrint_parsed:
  "parse tc sourceText = Inr ast \<Longrightarrow>
   prettyPrint tc sourceText =
     Inr (trim (code (generate tc ast \<lparr>gen_comments = True, gen_quotes = None\<rparr> sourceText)))"
  by (simp add: prettyPrint_def)

lemma catchBlock_throws:
  "prettyPrint tc expected = Inr expectedFormattedCode \<Longrightarrow>
   prettyPrint tc actual = Inr actualFormattedCode \<Longrightarrow>
   catchBlock tc expected actual expectedTree actualTree e =
     Inl (JsError ''Error''
           (errMessage expectedFormattedCode actualFormattedCode
              (longest_common_prefix expectedFormattedCode actualFormattedCode) 60
              (take 60 (drop (length (longest_common_prefix expectedFormattedCode actualFormattedCode))
                 expectedFormattedCode))
              (take 60 (drop (length (longest_common_prefix expectedFormattedCode actualFormattedCode))
                 actualFormattedCode))
              (jsonDiff_diffString tc actualTree expectedTree))
           (stack e))"
  by (simp add: catchBlock_def Let_def firstCommonSubstring_lcp substr_def)

lemma errMessage_text:
  "errMessage expectedText actualText common 60 excerptExpected excerptActual astDiff =
     ''deepEqual node AST assert failed for the following code:\<newline>\<newline>'' @
     ''Expected output: <<<'' @ expectedText @ ''>>>\<newline>\<newline>'' @
     ''Actual output: <<<'' @ actualText @ ''>>>\<newline>\<newline>'' @
     ''First common string: <<<'' @ common @ ''>>>\<newline>\<newline>'' @
     ''The first difference is (60 chars max):\<newline>\<newline>'' @
     ''Expected : <<<'' @ excerptExpected @ ''>>>\<newline>\<newline>'' @
     ''Actual   : <<<'' @ excerptActual @ ''>>>\<newline>\<newline>'' @
     ''AST diff:\<newline>====\<newline>'' @ astDiff @ ''\<newline>====\<newline>''"
  by (simp add: errMessage_def toString.simps)

lemma assert_mismatch:
  assumes e: "normalize_spec tc expected options = Inr expectedTree"
    and a: "normalize_spec tc actual options = Inr actualTree"
    and d: "deepStrictEqual tc actualTree expectedTree = Inl err"
  shows "\<exists>expectedFormattedCode actualFormattedCode.
     prettyPrint tc expected = Inr expectedFormattedCode \<and>
     prettyPrint tc actual = Inr actualFormattedCode \<and>
     assertSourceAstEqual tc expected actual options =
       Inl (JsError ''Error''
          (errMessage expectedFormattedCode actualFormattedCode
             (longest_common_prefix expectedFormattedCode actualFormattedCode) 60
             (take 60 (drop (length (longest_common_prefix expectedFormattedCode actualFormattedCode))
                expectedFormattedCode))
             (take 60 (drop (length (longest_common_prefix expectedFormattedCode actualFormattedCode))
                actualFormattedCode))
             (jsonDiff_diffString tc actualTree expectedTree))
          (stack err))"
proof -
  from e obtain ast where "parse tc expected = Inr ast"
    using normalize_parsed by blast
  then have pe: "prettyPrint tc expected =
      Inr (trim (code (generate tc ast \<lparr>gen_comments = True, gen_quotes = None\<rparr> expected)))"
    by (rule prettyPrint_parsed)
  from a obtain ast' where "parse tc actual = Inr ast'"
    using normalize_parsed by blast
  then have pa: "prettyPrint tc actual =
      Inr (trim (code (generate tc ast' \<lparr>gen_comments = True, gen_quotes = None\<rparr> actual)))"
    by (rule prettyPrint_parsed)
  have "assertSourceAstEqual tc expected actual options =
      catchBlock tc expected actual expectedTree actualTree err"
    by (simp add: assert_normalize e a d)
  with catchBlock_throws [OF pe pa] pe pa show ?thesis by simp
qed

lemma assert_returns_iff:
  "(assertSourceAstEqual tc expected actual options = Inr ()) =
   (\<exists>expectedTree actualTree. normalize_spec tc expected options = Inr expectedTree \<and>
      normalize_spec tc actual options = Inr actualTree \<and> deepEqual actualTree expectedTree)"
proof (cases "normalize_spec tc expected options")
  case (Inl e)
  then show ?thesis by (simp add: assert_normalize)
next
  case e: (Inr expectedTree)
  show ?thesis
  proof (cases "normalize_spec tc actual options")
    case (Inl e')
    with e show ?thesis by (simp add: assert_normalize)
  next
    case a: (Inr actualTree)
    show ?thesis
    proof (cases "deepEqual actualTree expectedTree")
      case True
      with e a show ?thesis by (simp add: assert_normalize deepStrictEqual_def)
    next
      case False
      then have "deepStrictEqual tc actualTree expectedTree =
          Inl (assertionError tc actualTree expectedTree)"
        by (simp add: deepStrictEqual_def)
      from assert_mismatch [OF e a this] False e a show ?thesis by auto
    qed
  qed
qed

lemma both_Some:
  "(case m of None \<Rightarrow> False | Some v \<Rightarrow> (case m' of None \<Rightarrow> False | Some v' \<Rightarrow> P v v')) =
   (\<exists>v v'. m = Some v \<and> m' = Some v' \<and> P v v')"
  by (cases m; cases m') auto

lemma deepEqual_JObj:
  "deepEqual (JObj props) (JObj props') =
     (set (map fst props) = set (map fst props') \<and>
      (\<forall>p \<in> set (map fst props). \<exists>v v'. map_of props p = Some v \<and> map_of props' p = Some v' \<and>
          deepEqual v v'))"
  by (simp add: list_all_iff both_Some)

lemma deepEqual_refl: "deepEqual a a"
proof (induction a)
  case (JArr elems)
  then show ?case by (simp add: list_all2_same)
next
  case (JObj props)
  have "\<And>p. p \<in> fst ` set props \<Longrightarrow> \<exists>v. map_of props p = Some v \<and> deepEqual v v"
  proof -
    fix p assume "p \<in> fst ` set props"
    then obtain v where m: "map_of props p = Some v"
      by (metis domD dom_map_of_conv_image_fst)
    then have "(p, v) \<in> set props" by (rule map_of_SomeD)
    with JObj have "deepEqual v v" by (auto simp: snds.simps)
    with m show "\<exists>v. map_of props p = Some v \<and> deepEqual v v" by simp
  qed
  then show ?case unfolding deepEqual_JObj by fastforce
qed simp_all

lemma expected_failure:
  "normalize_spec tc expected options = Inl e \<Longrightarrow> assertSourceAstEqual tc expected actual options = Inl e"
  by (simp add: assert_normalize)

lemma actual_failure:
  "normalize_spec tc expected options = Inr expectedTree \<Longrightarrow> normalize_spec tc actual options = Inl e \<Longrightarrow>
     assertSourceAstEqual tc expected actual options = Inl e"
  by (simp add: assert_normalize)

lemma first_parse_error:
  "parse tc sourceText = Inl e \<Longrightarrow> normalize_spec tc sourceText options = Inl e"
  by (simp add: normalize_eq normalizeSourceCode_def)

lemma second_parse_error:
  "normalizeSourceCode tc sourceText = Inr canonical \<Longrightarrow> parse tc canonical = Inl e \<Longrightarrow>
     normalize_spec tc sourceText options = Inl e"
  by (simp add: normalize_eq)

section \<open>What the test runner computes\<close>

lemma testBody_true:
  "throws testInfo = JBool True \<Longrightarrow>
     testBody tc testInfo transform options =
       (\<exists>e. transform (input testInfo) (testOptions testInfo) = Inl e)"
  by (cases "transform (input testInfo) (testOptions testInfo)")
    (simp_all add: testBody_def toThrow_def)

lemma testBody_string:
  "throws testInfo = JStr substring \<Longrightarrow>
     testBody tc testInfo transform options =
       (\<exists>e. transform (input testInfo) (testOptions testInfo) = Inl e \<and>
            sublist substring (message e))"
  by (cases "transform (input testInfo) (testOptions testInfo)")
    (simp_all add: testBody_def toThrowMessage_def)

lemma testBody_false:
  "throws testInfo = JBool False \<Longrightarrow>
     testBody tc testInfo transform options =
       (\<exists>result. transform (input testInfo) (testOptions testInfo) = Inr result)"
  by (cases "transform (input testInfo) (testOptions testInfo)")
    (simp_all add: testBody_def)

lemma testBody_otherwise:
  assumes "throws testInfo \<noteq> JBool True" and "\<forall>s. throws testInfo \<noteq> JStr s"
    and "throws testInfo \<noteq> JBool False"
  shows "testBody tc testInfo transform options =
       (\<exists>result. transform (input testInfo) (testOptions testInfo) = Inr result \<and>
            assertSourceAstEqual tc (output' testInfo) result options = Inr ())"
proof -
  from assms have "testBody tc testInfo transform options =
      notToThrow (bindE (transform (input testInfo) (testOptions testInfo))
             (\<lambda>result. assertSourceAstEqual tc (output' testInfo) result options))"
    by (cases "throws testInfo") (simp_all add: testBody_def)
  then show ?thesis
    by (cases "transform (input testInfo) (testOptions testInfo)")
      (auto simp: notToThrow_def split: sum.splits)
qed

lemma testBody_default_options:
  "testBody tc (testInfo\<lparr>testOptions := entryOptions\<rparr>)
       (getDefaultTransformForPlugins transformSync plugs) options =
   testBody tc testInfo (getDefaultTransformForPlugins transformSync plugs) options"
  by (cases "throws testInfo") (simp_all add: getDefaultTransformForPlugins_def testBody_def)

lemma testCase_default_options:
  "testCase tc transformSync name plugs
     (map (\<lambda>(test, testInfo). (test, testInfo\<lparr>testOptions := assign test\<rparr>)) testData) options =
   testCase tc transformSync name plugs testData options"
  by (simp add: testCase_def testSection_def testBody_default_options case_prod_beta comp_def)

section \<open>The examples, evaluated\<close>

lemmas eval_strip = ignoreKeys_def IGNORE_KEYS_def keepComments_def deleteKeys_def deleteKey_def

lemmas eval_toy = toyToolchain_def toyParse_def toyGenerate_def parse_def normalizeSourceCode_def
  prettyPrint_def trim_def isWhiteSpace_def normalize_spec_def canonicalStyle_def

lemmas eval_odd = oddToolchain_def eval_toy

lemma toy_normalize_1: "normalize_spec toyToolchain ''x = 1'' None =
   Inr (JObj [(''type'', JStr ''Program''), (''body'', JStr ''x=1'')])"
  by (simp add: eval_toy eval_strip)

lemma toy_normalize_1s: "normalize_spec toyToolchain ''x=1;'' None =
   Inr (JObj [(''type'', JStr ''Program''), (''body'', JStr ''x=1'')])"
  by (simp add: eval_toy eval_strip)

lemma toy_normalize_2: "normalize_spec toyToolchain ''x = 2;'' None =
   Inr (JObj [(''type'', JStr ''Program''), (''body'', JStr ''x=2'')])"
  by (simp add: eval_toy eval_strip)

lemma toy_normalize_bad: "normalize_spec toyToolchain ''x = !'' None =
   Inl (JsError ''SyntaxError'' ''Unexpected token'' ''at toyParse'')"
  by (simp add: eval_toy eval_strip)

lemma toy_pretty_1: "prettyPrint toyToolchain ''x = 1'' = Inr ''x=1;''"
  by (simp add: eval_toy)

lemma toy_pretty_2: "prettyPrint toyToolchain ''x = 2;'' = Inr ''x=2;''"
  by (simp add: eval_toy)

lemma toy_fcs: "firstCommonSubstring ''x=2;'' ''x=1;'' = ''x=''"
  by (simp add: firstCommonSubstring_lcp)

lemma toy_eq: "deepEqual (JObj [(''type'', JStr ''Program''), (''body'', JStr ''x=1'')]) (JObj [(''type'', JStr ''Program''), (''body'', JStr ''x=1'')])"
  by simp

lemma toy_neq: "\<not> deepEqual (JObj [(''type'', JStr ''Program''), (''body'', JStr ''x=1'')]) (JObj [(''type'', JStr ''Program''), (''body'', JStr ''x=2'')])"
  by simp

lemma toy_eq_order: "deepEqual (JObj [(''type'', JStr ''Program''), (''body'', JStr ''x=1'')]) (JObj [(''body'', JStr ''x=1''), (''type'', JStr ''Program'')])"
  by auto

lemma toy_diff: "jsonDiff_diffString toyToolchain actual expected = ''(diff)''"
  by (simp add: toyToolchain_def)

lemma toy_assertionError: "assertionError toyToolchain actual expected =
  JsError ''AssertionError'' ''Expected values to be strictly deep-equal'' ''at deepStrictEqual''"
  by (simp add: toyToolchain_def)

lemma odd_normalize_1: "normalize_spec oddToolchain ''x = 1'' None =
   Inr (JObj [(''type'', JStr ''Program''), (''body'', JStr ''x=1'')])"
  by (simp add: eval_odd eval_strip)

lemma odd_canonical: "normalizeSourceCode oddToolchain ''x = ?'' = Inr ''!''"
  by (simp add: eval_odd)

lemma odd_parse: "parse oddToolchain ''!'' = Inl (JsError ''SyntaxError'' ''Unexpected token'' ''at toyParse'')"
  by (simp add: eval_odd)

lemma toy_parse_bad: "parse toyToolchain ''x = !'' = Inl (JsError ''SyntaxError'' ''Unexpected token'' ''at toyParse'')"
  by (simp add: eval_toy)

lemma toy_canonical: "normalizeSourceCode toyToolchain ''x = 1'' = Inr ''x=1;''"
  by (simp add: eval_toy)

lemma toy_reparse: "parse toyToolchain ''x=1;'' =
  Inr \<lparr>program = JObj [(''type'', JStr ''Program''), (''start'', JNum 0), (''end'', JNum 4),
                         (''body'', JStr ''x=1'')], others = []\<rparr>"
  by (simp add: eval_toy)

lemma toy_strip: "stripMeta (JObj [(''type'', JStr ''Program''), (''start'', JNum 0), (''end'', JNum 4),
                         (''body'', JStr ''x=1'')]) None = Inr (JObj [(''type'', JStr ''Program''), (''body'', JStr ''x=1'')])"
  by (simp add: eval_strip)

lemma toy_sublist: "sublist ''bang'' ''transform failed: bang''"
  by (simp add: sublist_Cons_right)

lemma toy_not_sublist: "\<not> sublist ''bong'' ''transform failed: bang''"
  by (simp add: sublist_Cons_right)

lemma toy_transform_ok: "toyTransform ''x = 1'' opts = Inr ''x = 1;''"
  by (simp add: toyTransform_def getDefaultTransformForPlugins_def toySync_def)

lemma toy_transform_bad: "toyTransform ''x = !'' opts = Inl (JsError ''Error'' ''transform failed: bang'' ''at toySync'')"
  by (simp add: toyTransform_def getDefaultTransformForPlugins_def toySync_def)

lemma toy_normalize_1t: "normalize_spec toyToolchain ''x = 1;'' None =
   Inr (JObj [(''type'', JStr ''Program''), (''body'', JStr ''x=1'')])"
  by (simp add: eval_toy eval_strip)

lemma toy_assert_same: "assertSourceAstEqual toyToolchain ''x=1;'' ''x = 1;'' None = Inr ()"
  by (simp add: assert_returns_iff toy_normalize_1s toy_normalize_1t)

lemma toy_assert_differ: "assertSourceAstEqual toyToolchain ''x = 2;'' ''x = 1;'' None \<noteq> Inr ()"
  by (simp add: assert_returns_iff toy_normalize_2 toy_normalize_1t)

lemma toy_adds_semicolon:
  "testBody toyToolchain
     \<lparr>input = ''x = 1'', output' = ''x=1;'', throws = JUndefined, testOptions = opts\<rparr>
     toyTransform None = True"
  by (simp add: testBody_otherwise toy_transform_ok toy_assert_same)



section \<open>The claims\<close>

text \<open>
  C1. assertSourceAstEqual puts both sources through the same pipeline with the same
  options, and returns exactly when both pipelines return a tree and the two trees are
  deeply equal. When both return a tree and the trees differ, it throws an error whose
  message is the divergence report: the text of the template with the two pretty-printed
  sources, their first common string, the two excerpts and the structural diff in its
  places (the last conjunct gives that text). Deep equality compares arrays
  element by element in order, and mappings by their sets of names and the values under
  each name.
\<close>

theorem assertSourceAstEqual_returns_iff_equal:
  "(assertSourceAstEqual tc expected actual options = Inr ()) =
     (\<exists>expectedTree actualTree. normalize_spec tc expected options = Inr expectedTree \<and>
        normalize_spec tc actual options = Inr actualTree \<and> deepEqual actualTree expectedTree) \<and>
   (normalize_spec tc expected options = Inr expectedTree \<and>
    normalize_spec tc actual options = Inr actualTree \<and> \<not> deepEqual actualTree expectedTree \<longrightarrow>
      (\<exists>expectedFormattedCode actualFormattedCode.
         prettyPrint tc expected = Inr expectedFormattedCode \<and>
         prettyPrint tc actual = Inr actualFormattedCode \<and>
         assertSourceAstEqual tc expected actual options =
           Inl (JsError ''Error''
             (errMessage expectedFormattedCode actualFormattedCode
                (firstCommonSubstring expectedFormattedCode actualFormattedCode) 60
                (substr expectedFormattedCode
                   (length (firstCommonSubstring expectedFormattedCode actualFormattedCode)) 60)
                (substr actualFormattedCode
                   (length (firstCommonSubstring expectedFormattedCode actualFormattedCode)) 60)
                (jsonDiff_diffString tc actualTree expectedTree))
             (stack (assertionError tc actualTree expectedTree))))) \<and>
   deepEqual (JArr elems) (JArr elems') = list_all2 deepEqual elems elems' \<and>
   deepEqual (JObj props) (JObj props') =
     (set (map fst props) = set (map fst props') \<and>
      (\<forall>p \<in> set (map fst props). \<exists>v v'. map_of props p = Some v \<and> map_of props' p = Some v' \<and>
          deepEqual v v')) \<and>
   errMessage expectedText actualText common 60 excerptExpected excerptActual astDiff =
     ''deepEqual node AST assert failed for the following code:\<newline>\<newline>'' @
     ''Expected output: <<<'' @ expectedText @ ''>>>\<newline>\<newline>'' @
     ''Actual output: <<<'' @ actualText @ ''>>>\<newline>\<newline>'' @
     ''First common string: <<<'' @ common @ ''>>>\<newline>\<newline>'' @
     ''The first difference is (60 chars max):\<newline>\<newline>'' @
     ''Expected : <<<'' @ excerptExpected @ ''>>>\<newline>\<newline>'' @
     ''Actual   : <<<'' @ excerptActual @ ''>>>\<newline>\<newline>'' @
     ''AST diff:\<newline>====\<newline>'' @ astDiff @ ''\<newline>====\<newline>''"
proof -
  have m: "normalize_spec tc expected options = Inr expectedTree \<and>
    normalize_spec tc actual options = Inr actualTree \<and> \<not> deepEqual actualTree expectedTree \<longrightarrow>
      (\<exists>expectedFormattedCode actualFormattedCode.
         prettyPrint tc expected = Inr expectedFormattedCode \<and>
         prettyPrint tc actual = Inr actualFormattedCode \<and>
         assertSourceAstEqual tc expected actual options =
           Inl (JsError ''Error''
             (errMessage expectedFormattedCode actualFormattedCode
                (firstCommonSubstring expectedFormattedCode actualFormattedCode) 60
                (substr expectedFormattedCode
                   (length (firstCommonSubstring expectedFormattedCode actualFormattedCode)) 60)
                (substr actualFormattedCode
                   (length (firstCommonSubstring expectedFormattedCode actualFormattedCode)) 60)
                (jsonDiff_diffString tc actualTree expectedTree))
             (stack (assertionError tc actualTree expectedTree))))"
  proof
    assume h: "normalize_spec tc expected options = Inr expectedTree \<and>
      normalize_spec tc actual options = Inr actualTree \<and> \<not> deepEqual actualTree expectedTree"
    then have "deepStrictEqual tc actualTree expectedTree =
        Inl (assertionError tc actualTree expectedTree)"
      by (simp add: deepStrictEqual_def)
    with h assert_mismatch [of tc expected options expectedTree actual actualTree]
    show "\<exists>expectedFormattedCode actualFormattedCode.
         prettyPrint tc expected = Inr expectedFormattedCode \<and>
         prettyPrint tc actual = Inr actualFormattedCode \<and>
         assertSourceAstEqual tc expected actual options =
           Inl (JsError ''Error''
             (errMessage expectedFormattedCode actualFormattedCode
                (firstCommonSubstring expectedFormattedCode actualFormattedCode) 60
                (substr expectedFormattedCode
                   (length (firstCommonSubstring expectedFormattedCode actualFormattedCode)) 60)
                (substr actualFormattedCode
                   (length (firstCommonSubstring expectedFormattedCode actualFormattedCode)) 60)
                (jsonDiff_diffString tc actualTree expectedTree))
             (stack (assertionError tc actualTree expectedTree)))"
      by (simp add: firstCommonSubstring_lcp substr_def)
  qed
  have l: "deepEqual (JArr elems) (JArr elems') = list_all2 deepEqual elems elems'"
    by simp
  from assert_returns_iff [of tc expected actual options] m l deepEqual_JObj [of props props']
    errMessage_text [of expectedText actualText common excerptExpected excerptActual astDiff]
  show ?thesis by (simp only: simp_thms)
qed

theorem assertSourceAstEqual_returns_iff_equal_witness:
  "normalize_spec toyToolchain ''x=1;'' None = Inr (JObj [(''type'', JStr ''Program''), (''body'', JStr ''x=1'')]) \<and>
   normalize_spec toyToolchain ''x = 1'' None = Inr (JObj [(''type'', JStr ''Program''), (''body'', JStr ''x=1'')]) \<and>
   assertSourceAstEqual toyToolchain ''x=1;'' ''x = 1'' None = Inr () \<and>
   normalize_spec toyToolchain ''x = 2;'' None = Inr (JObj [(''type'', JStr ''Program''), (''body'', JStr ''x=2'')]) \<and>
   \<not> deepEqual (JObj [(''type'', JStr ''Program''), (''body'', JStr ''x=1'')])
        (JObj [(''type'', JStr ''Program''), (''body'', JStr ''x=2'')]) \<and>
   assertSourceAstEqual toyToolchain ''x = 2;'' ''x = 1'' None =
     Inl (JsError ''Error''
       ''deepEqual node AST assert failed for the following code:\<newline>\<newline>Expected output: <<<x=2;>>>\<newline>\<newline>Actual output: <<<x=1;>>>\<newline>\<newline>First common string: <<<x=>>>\<newline>\<newline>The first difference is (60 chars max):\<newline>\<newline>Expected : <<<2;>>>\<newline>\<newline>Actual   : <<<1;>>>\<newline>\<newline>AST diff:\<newline>====\<newline>(diff)\<newline>====\<newline>''
       ''at deepStrictEqual'')"
proof -
  let ?one = "JObj [(''type'', JStr ''Program''), (''body'', JStr ''x=1'')]"
  let ?two = "JObj [(''type'', JStr ''Program''), (''body'', JStr ''x=2'')]"
  note same = assertSourceAstEqual_returns_iff_equal [of toyToolchain "''x=1;''" "''x = 1''" None
      ?one ?one]
  note differ = assertSourceAstEqual_returns_iff_equal [of toyToolchain "''x = 2;''" "''x = 1''" None
      ?two ?one]
  have a: "assertSourceAstEqual toyToolchain ''x=1;'' ''x = 1'' None = Inr ()"
    by (simp add: same [THEN conjunct1] toy_normalize_1s toy_normalize_1)
  have "\<exists>expectedFormattedCode actualFormattedCode.
         prettyPrint toyToolchain ''x = 2;'' = Inr expectedFormattedCode \<and>
         prettyPrint toyToolchain ''x = 1'' = Inr actualFormattedCode \<and>
         assertSourceAstEqual toyToolchain ''x = 2;'' ''x = 1'' None =
           Inl (JsError ''Error''
             (errMessage expectedFormattedCode actualFormattedCode
                (firstCommonSubstring expectedFormattedCode actualFormattedCode) 60
                (substr expectedFormattedCode
                   (length (firstCommonSubstring expectedFormattedCode actualFormattedCode)) 60)
                (substr actualFormattedCode
                   (length (firstCommonSubstring expectedFormattedCode actualFormattedCode)) 60)
                (jsonDiff_diffString toyToolchain ?one ?two))
             (stack (assertionError toyToolchain ?one ?two)))"
    by (rule differ [THEN conjunct2, THEN conjunct1, THEN mp])
      (simp add: toy_normalize_2 toy_normalize_1)
  then have "assertSourceAstEqual toyToolchain ''x = 2;'' ''x = 1'' None =
     Inl (JsError ''Error'' (errMessage ''x=2;'' ''x=1;'' ''x='' 60 ''2;'' ''1;'' ''(diff)'')
            ''at deepStrictEqual'')"
    by (clarsimp simp: toy_pretty_1 toy_pretty_2 toy_fcs substr_def toy_diff toy_assertionError)
  also have "errMessage ''x=2;'' ''x=1;'' ''x='' 60 ''2;'' ''1;'' ''(diff)'' =
       ''deepEqual node AST assert failed for the following code:\<newline>\<newline>Expected output: <<<x=2;>>>\<newline>\<newline>Actual output: <<<x=1;>>>\<newline>\<newline>First common string: <<<x=>>>\<newline>\<newline>The first difference is (60 chars max):\<newline>\<newline>Expected : <<<2;>>>\<newline>\<newline>Actual   : <<<1;>>>\<newline>\<newline>AST diff:\<newline>====\<newline>(diff)\<newline>====\<newline>''"
    by (simp add: differ [THEN conjunct2, THEN conjunct2, THEN conjunct2, THEN conjunct2,
          of "''x=2;''" "''x=1;''" "''x=''" "''2;''" "''1;''" "''(diff)''"])
  finally have b: "assertSourceAstEqual toyToolchain ''x = 2;'' ''x = 1'' None =
     Inl (JsError ''Error''
       ''deepEqual node AST assert failed for the following code:\<newline>\<newline>Expected output: <<<x=2;>>>\<newline>\<newline>Actual output: <<<x=1;>>>\<newline>\<newline>First common string: <<<x=>>>\<newline>\<newline>The first difference is (60 chars max):\<newline>\<newline>Expected : <<<2;>>>\<newline>\<newline>Actual   : <<<1;>>>\<newline>\<newline>AST diff:\<newline>====\<newline>(diff)\<newline>====\<newline>''
       ''at deepStrictEqual'')" .
  have c: "\<not> deepEqual ?one ?two" by simp
  show ?thesis
    by (intro conjI) (rule toy_normalize_1s toy_normalize_1 a toy_normalize_2 c b)+
qed

text \<open>
  C2. testSection registers one test per entry of the table. With \<^verbatim>\<open>throws === true\<close>
  the test passes exactly when the transform, called with the entry's input and options,
  throws; with a string, when it throws an error whose message contains the string; with
  \<^verbatim>\<open>throws === false\<close>, when it returns, whatever it returns; and otherwise (no
  \<^verbatim>\<open>throws\<close> key among these cases), when it returns and assertSourceAstEqual
  accepts the entry's output and the result under the shared options.
\<close>

theorem testSection_dispatch:
  "testSection tc testData transform options =
     map (\<lambda>(test, testInfo). (test, testBody tc testInfo transform options)) testData \<and>
   (throws testInfo = JBool True \<longrightarrow>
      testBody tc testInfo transform options =
        (\<exists>e. transform (input testInfo) (testOptions testInfo) = Inl e)) \<and>
   (throws testInfo = JStr substring \<longrightarrow>
      testBody tc testInfo transform options =
        (\<exists>e. transform (input testInfo) (testOptions testInfo) = Inl e \<and>
             sublist substring (message e))) \<and>
   (throws testInfo = JBool False \<longrightarrow>
      testBody tc testInfo transform options =
        (\<exists>result. transform (input testInfo) (testOptions testInfo) = Inr result)) \<and>
   (throws testInfo \<noteq> JBool True \<and> (\<forall>s. throws testInfo \<noteq> JStr s) \<and>
    throws testInfo \<noteq> JBool False \<longrightarrow>
      testBody tc testInfo transform options =
        (\<exists>result. transform (input testInfo) (testOptions testInfo) = Inr result \<and>
             assertSourceAstEqual tc (output' testInfo) result options = Inr ()))"
proof -
  have a: "throws testInfo = JBool True \<longrightarrow>
      testBody tc testInfo transform options =
        (\<exists>e. transform (input testInfo) (testOptions testInfo) = Inl e)"
    using testBody_true by blast
  have b: "throws testInfo = JStr substring \<longrightarrow>
      testBody tc testInfo transform options =
        (\<exists>e. transform (input testInfo) (testOptions testInfo) = Inl e \<and>
             sublist substring (message e))"
    using testBody_string by blast
  have c: "throws testInfo = JBool False \<longrightarrow>
      testBody tc testInfo transform options =
        (\<exists>result. transform (input testInfo) (testOptions testInfo) = Inr result)"
    using testBody_false by blast
  have d: "throws testInfo \<noteq> JBool True \<and> (\<forall>s. throws testInfo \<noteq> JStr s) \<and>
    throws testInfo \<noteq> JBool False \<longrightarrow>
      testBody tc testInfo transform options =
        (\<exists>result. transform (input testInfo) (testOptions testInfo) = Inr result \<and>
             assertSourceAstEqual tc (output' testInfo) result options = Inr ())"
    using testBody_otherwise [of testInfo tc transform options] by blast
  from a b c d show ?thesis
    by (simp only: testSection_def simp_thms)
qed

theorem testSection_dispatch_witness:
  "testSection toyToolchain toyTable toyTransform None =
     [(''throws'', True), (''throws bang'', True), (''throws bong'', False),
      (''does not throw'', True), (''adds semicolon'', True), (''wrong output'', False),
      (''unexpected throw'', False)]"
proof -
  let ?t = "\<lambda>i. snd (toyTable ! i)"
  note d = testSection_dispatch [of toyToolchain toyTable toyTransform None]
  have 0: "testBody toyToolchain (?t 0) toyTransform None = True"
    using d [of "?t 0" "[]", THEN conjunct2, THEN conjunct1]
    by (simp add: toyTable_def toy_transform_bad)
  have 1: "testBody toyToolchain (?t 1) toyTransform None = True"
    using d [of "?t 1" "''bang''", THEN conjunct2, THEN conjunct2, THEN conjunct1]
    by (simp add: toyTable_def toy_transform_bad toy_sublist)
  have 2: "testBody toyToolchain (?t 2) toyTransform None = False"
    using d [of "?t 2" "''bong''", THEN conjunct2, THEN conjunct2, THEN conjunct1]
    by (simp add: toyTable_def toy_transform_bad toy_not_sublist)
  have 3: "testBody toyToolchain (?t 3) toyTransform None = True"
    using d [of "?t 3" "[]", THEN conjunct2, THEN conjunct2, THEN conjunct2, THEN conjunct1]
    by (simp add: toyTable_def toy_transform_ok)
  have 4: "testBody toyToolchain (?t 4) toyTransform None = True"
    using d [of "?t 4" "[]", THEN conjunct2, THEN conjunct2, THEN conjunct2, THEN conjunct2]
    by (simp add: toyTable_def toy_transform_ok toy_assert_same)
  have 5: "testBody toyToolchain (?t 5) toyTransform None = False"
    using d [of "?t 5" "[]", THEN conjunct2, THEN conjunct2, THEN conjunct2, THEN conjunct2]
    by (simp add: toyTable_def toy_transform_ok toy_assert_differ)
  have 6: "testBody toyToolchain (?t 6) toyTransform None = False"
    using d [of "?t 6" "[]", THEN conjunct2, THEN conjunct2, THEN conjunct2, THEN conjunct2]
    by (simp add: toyTable_def toy_transform_bad)
  have "testSection toyToolchain toyTable toyTransform None =
     map (\<lambda>(test, testInfo). (test, testBody toyToolchain testInfo toyTransform None)) toyTable"
    by (rule d [THEN conjunct1])
  also have "\<dots> = [(''throws'', testBody toyToolchain (?t 0) toyTransform None),
      (''throws bang'', testBody toyToolchain (?t 1) toyTransform None),
      (''throws bong'', testBody toyToolchain (?t 2) toyTransform None),
      (''does not throw'', testBody toyToolchain (?t 3) toyTransform None),
      (''adds semicolon'', testBody toyToolchain (?t 4) toyTransform None),
      (''wrong output'', testBody toyToolchain (?t 5) toyTransform None),
      (''unexpected throw'', testBody toyToolchain (?t 6) toyTransform None)]"
    by (simp add: toyTable_def)
  finally show ?thesis
    by (simp only: 0 1 2 3 4 5 6)
qed

text \<open>
  C3. The exclusion set is the nine fixed names, together with \<^verbatim>\<open>leadingComments\<close> and
  \<^verbatim>\<open>trailingComments\<close> exactly when the comments option is not set (the options are
  absent, or \<^verbatim>\<open>options.comments\<close> is not true). On every tree that is not \<^verbatim>\<open>null\<close> or
  \<^verbatim>\<open>undefined\<close> stripMeta returns, and what it returns is the tree with the excluded
  fields removed at every node, whatever the node's kind: no node of the result has an
  excluded field, and a path of the result leads to the stripped value the same path
  leads to in the original exactly when no field on the path is excluded. With the
  comments option set the two comment fields are not excluded, so they are retained.
\<close>

theorem stripMeta_deletes_exclusion_set:
  "IGNORE_KEYS = [''__clone'', ''start'', ''end'', ''raw'', ''rawValue'', ''loc'', ''tokens'',
      ''parenthesized'', ''parenStart''] \<and>
   keepComments options = (\<exists>opts. options = Some opts \<and> comments opts = Some True) \<and>
   ignoreKeys options =
     IGNORE_KEYS @ (if keepComments options then [] else [''leadingComments'', ''trailingComments'']) \<and>
   (\<not> nullish node \<longrightarrow> stripMeta node options = Inr (strip_spec (ignoreKeys options) node)) \<and>
   (stripMeta node options = Inr stripped \<longrightarrow>
      (\<forall>n \<in> set (nodes stripped). \<forall>key \<in> set (ignoreKeys options). key \<notin> set (propertyNames n)) \<and>
      (\<forall>path. getPath stripped path =
         (if set (keysOf path) \<inter> set (ignoreKeys options) = {}
          then map_option (strip_spec (ignoreKeys options)) (getPath node path) else None)))"
proof -
  have a: "keepComments options = (\<exists>opts. options = Some opts \<and> comments opts = Some True)"
    by (cases options) (simp_all add: keepComments_def)
  have b: "ignoreKeys options =
     IGNORE_KEYS @ (if keepComments options then [] else [''leadingComments'', ''trailingComments''])"
    by (simp add: ignoreKeys_def)
  have c: "\<not> nullish node \<longrightarrow> stripMeta node options = Inr (strip_spec (ignoreKeys options) node)"
    by (simp add: stripMeta_eq)
  have d: "stripMeta node options = Inr stripped \<longrightarrow>
      (\<forall>n \<in> set (nodes stripped). \<forall>key \<in> set (ignoreKeys options). key \<notin> set (propertyNames n)) \<and>
      (\<forall>path. getPath stripped path =
         (if set (keysOf path) \<inter> set (ignoreKeys options) = {}
          then map_option (strip_spec (ignoreKeys options)) (getPath node path) else None))"
  proof
    assume "stripMeta node options = Inr stripped"
    then have s: "stripped = strip_spec (ignoreKeys options) node"
      by (simp add: stripMeta_eq split: if_splits)
    show "(\<forall>n \<in> set (nodes stripped). \<forall>key \<in> set (ignoreKeys options). key \<notin> set (propertyNames n)) \<and>
      (\<forall>path. getPath stripped path =
         (if set (keysOf path) \<inter> set (ignoreKeys options) = {}
          then map_option (strip_spec (ignoreKeys options)) (getPath node path) else None))"
      unfolding s using nodes_without getPath_without by blast
  qed
  from a b c d show ?thesis by (simp only: IGNORE_KEYS_def simp_thms)
qed

theorem stripMeta_deletes_exclusion_set_witness:
  "\<not> nullish exampleNode \<and>
   stripMeta exampleNode None = Inr (JObj [(''type'', JStr ''Identifier''), (''name'', JStr ''x'')]) \<and>
   getPath (JObj [(''type'', JStr ''Identifier''), (''name'', JStr ''x'')]) [Key ''leadingComments''] = None \<and>
   stripMeta exampleNode (Some \<lparr>comments = Some True\<rparr>) =
     Inr (JObj [(''type'', JStr ''Identifier''), (''name'', JStr ''x''),
           (''leadingComments'',
              JArr [JObj [(''type'', JStr ''CommentBlock''), (''value'', JStr '' c '')]])]) \<and>
   getPath (JObj [(''type'', JStr ''Identifier''), (''name'', JStr ''x''),
           (''leadingComments'',
              JArr [JObj [(''type'', JStr ''CommentBlock''), (''value'', JStr '' c '')]])])
       [Key ''leadingComments'', Element 0, Key ''value''] = Some (JStr '' c '')"
proof -
  let ?plain = "JObj [(''type'', JStr ''Identifier''), (''name'', JStr ''x'')]"
  let ?kept = "JObj [(''type'', JStr ''Identifier''), (''name'', JStr ''x''),
           (''leadingComments'',
              JArr [JObj [(''type'', JStr ''CommentBlock''), (''value'', JStr '' c '')]])]"
  let ?keep = "Some \<lparr>comments = Some True\<rparr>"
  note t1 = stripMeta_deletes_exclusion_set [of None exampleNode ?plain]
  note t2 = stripMeta_deletes_exclusion_set [of ?keep exampleNode ?kept]
  have n: "\<not> nullish exampleNode"
    by (simp add: exampleNode_def)
  have w1: "strip_spec (ignoreKeys None) exampleNode = ?plain"
    by (simp add: exampleNode_def eval_strip)
  have w2: "strip_spec (ignoreKeys ?keep) exampleNode = ?kept"
    by (simp add: exampleNode_def eval_strip)
  from n t1 have "stripMeta exampleNode None = Inr (strip_spec (ignoreKeys None) exampleNode)"
    by blast
  with w1 have s1: "stripMeta exampleNode None = Inr ?plain" by simp
  from n t2 have "stripMeta exampleNode ?keep = Inr (strip_spec (ignoreKeys ?keep) exampleNode)"
    by blast
  with w2 have s2: "stripMeta exampleNode ?keep = Inr ?kept" by simp
  from t1 s1 have "getPath ?plain [Key ''leadingComments''] =
      (if set (keysOf [Key ''leadingComments'']) \<inter> set (ignoreKeys None) = {}
       then map_option (strip_spec (ignoreKeys None)) (getPath exampleNode [Key ''leadingComments''])
       else None)"
    by blast
  then have g1: "getPath ?plain [Key ''leadingComments''] = None"
    by (simp add: eval_strip)
  from t2 s2 have "getPath ?kept [Key ''leadingComments'', Element 0, Key ''value''] =
      (if set (keysOf [Key ''leadingComments'', Element 0, Key ''value'']) \<inter>
            set (ignoreKeys ?keep) = {}
       then map_option (strip_spec (ignoreKeys ?keep))
              (getPath exampleNode [Key ''leadingComments'', Element 0, Key ''value''])
       else None)"
    by blast
  then have g2: "getPath ?kept [Key ''leadingComments'', Element 0, Key ''value''] =
      Some (JStr '' c '')"
    by (simp add: eval_strip exampleNode_def)
  from n s1 g1 s2 g2 show ?thesis by blast
qed

text \<open>
  C4. The tree that assertSourceAstEqual compares for a source is the Normalizer's: the
  source parsed, printed in the canonical style (single quotes, comments kept), trimmed,
  parsed again and stripped, which is stripMeta of the program of
  \<^verbatim>\<open>parse(normalizeSourceCode(source))\<close>.
\<close>

theorem compared_tree_two_pass:
  "assertSourceAstEqual tc expected actual options =
     bindE (normalize_spec tc expected options) (\<lambda>expectedTree.
     bindE (normalize_spec tc actual options) (\<lambda>actualTree.
       case deepStrictEqual tc actualTree expectedTree of
         Inr u \<Rightarrow> Inr ()
       | Inl e \<Rightarrow> catchBlock tc expected actual expectedTree actualTree e)) \<and>
   normalize_spec tc sourceText options =
     bindE (bindE (normalizeSourceCode tc sourceText) (parse tc))
       (\<lambda>ast. stripMeta (program ast) options) \<and>
   normalizeSourceCode tc sourceText =
     bindE (parse tc sourceText)
       (\<lambda>ast. Inr (trim (code (generate tc ast
          \<lparr>gen_comments = True, gen_quotes = Some ''single''\<rparr> sourceText))))"
  using assert_normalize [of tc expected actual options] normalize_eq [of tc sourceText options]
  by (simp only: normalizeSourceCode_def simp_thms)

theorem compared_tree_two_pass_witness:
  "normalizeSourceCode toyToolchain ''x = 1'' = Inr ''x=1;'' \<and>
   parse toyToolchain ''x=1;'' =
     Inr \<lparr>program = JObj [(''type'', JStr ''Program''), (''start'', JNum 0), (''end'', JNum 4),
                           (''body'', JStr ''x=1'')], others = []\<rparr> \<and>
   normalize_spec toyToolchain ''x = 1'' None =
     Inr (JObj [(''type'', JStr ''Program''), (''body'', JStr ''x=1'')]) \<and>
   assertSourceAstEqual toyToolchain ''x=1;'' ''x = 1'' None = Inr ()"
proof -
  note t = compared_tree_two_pass [of toyToolchain "''x=1;''" "''x = 1''" None "''x = 1''"]
  have n: "normalize_spec toyToolchain ''x = 1'' None =
     Inr (JObj [(''type'', JStr ''Program''), (''body'', JStr ''x=1'')])"
    by (simp add: t [THEN conjunct2, THEN conjunct1] toy_canonical toy_reparse toy_strip
        del: stripMeta.simps)
  have a: "assertSourceAstEqual toyToolchain ''x=1;'' ''x = 1'' None = Inr ()"
    by (simp add: t [THEN conjunct1] toy_normalize_1s n deepStrictEqual_def)
  show ?thesis
    by (intro conjI) (rule toy_canonical toy_reparse n a)+
qed




text \<open>
  C6. firstCommonSubstring returns the longest common prefix of its arguments: a prefix
  of both, which every common prefix is a prefix of, and where both strings go on after
  it they differ at that position. The excerpts of the report are the at most 60 code
  units of each pretty-printed source from the offset that is the length of the prefix.
\<close>

theorem firstCommonSubstring_longest_common_prefix:
  "firstCommonSubstring left right = longest_common_prefix left right \<and>
   prefix (firstCommonSubstring left right) left \<and>
   prefix (firstCommonSubstring left right) right \<and>
   (\<forall>p. prefix p left \<and> prefix p right \<longrightarrow> prefix p (firstCommonSubstring left right)) \<and>
   (length (firstCommonSubstring left right) < length left \<and>
    length (firstCommonSubstring left right) < length right \<longrightarrow>
      left ! length (firstCommonSubstring left right) \<noteq>
      right ! length (firstCommonSubstring left right)) \<and>
   (prettyPrint tc expected = Inr expectedFormattedCode \<and>
    prettyPrint tc actual = Inr actualFormattedCode \<longrightarrow>
      catchBlock tc expected actual expectedTree actualTree e =
        Inl (JsError ''Error''
          (errMessage expectedFormattedCode actualFormattedCode
             (firstCommonSubstring expectedFormattedCode actualFormattedCode) 60
             (take 60 (drop (length (firstCommonSubstring expectedFormattedCode actualFormattedCode))
                expectedFormattedCode))
             (take 60 (drop (length (firstCommonSubstring expectedFormattedCode actualFormattedCode))
                actualFormattedCode))
             (jsonDiff_diffString tc actualTree expectedTree))
          (stack e))) \<and>
   length (substr expectedFormattedCode start 60) \<le> 60 \<and>
   substr expectedFormattedCode start 60 = take 60 (drop start expectedFormattedCode)"
proof -
  have a: "firstCommonSubstring left right = longest_common_prefix left right"
    by (rule firstCommonSubstring_lcp)
  have b: "prefix (firstCommonSubstring left right) left"
    unfolding a by (rule longest_common_prefix_prefix1)
  have c: "prefix (firstCommonSubstring left right) right"
    unfolding a by (rule longest_common_prefix_prefix2)
  have d: "\<forall>p. prefix p left \<and> prefix p right \<longrightarrow> prefix p (firstCommonSubstring left right)"
    unfolding a by (simp add: longest_common_prefix_max_prefix)
  have e: "length (firstCommonSubstring left right) < length left \<and>
    length (firstCommonSubstring left right) < length right \<longrightarrow>
      left ! length (firstCommonSubstring left right) \<noteq>
      right ! length (firstCommonSubstring left right)"
    unfolding a by (simp add: lcp_mismatch)
  have f: "prettyPrint tc expected = Inr expectedFormattedCode \<and>
    prettyPrint tc actual = Inr actualFormattedCode \<longrightarrow>
      catchBlock tc expected actual expectedTree actualTree e =
        Inl (JsError ''Error''
          (errMessage expectedFormattedCode actualFormattedCode
             (firstCommonSubstring expectedFormattedCode actualFormattedCode) 60
             (take 60 (drop (length (firstCommonSubstring expectedFormattedCode actualFormattedCode))
                expectedFormattedCode))
             (take 60 (drop (length (firstCommonSubstring expectedFormattedCode actualFormattedCode))
                actualFormattedCode))
             (jsonDiff_diffString tc actualTree expectedTree))
          (stack e))"
    by (simp add: catchBlock_throws firstCommonSubstring_lcp)
  have g: "length (substr expectedFormattedCode start 60) \<le> 60"
    by (simp add: substr_def)
  have h: "substr expectedFormattedCode start 60 = take 60 (drop start expectedFormattedCode)"
    by (simp add: substr_def)
  from a b c d e f g h show ?thesis by blast
qed

theorem firstCommonSubstring_longest_common_prefix_witness:
  "firstCommonSubstring ''x=2;'' ''x=1;'' = ''x='' \<and>
   prefix ''x'' ''x=2;'' \<and> prefix ''x'' ''x=1;'' \<and> prefix ''x'' (firstCommonSubstring ''x=2;'' ''x=1;'') \<and>
   length (firstCommonSubstring ''x=2;'' ''x=1;'') < length ''x=2;'' \<and>
   ''x=2;'' ! length (firstCommonSubstring ''x=2;'' ''x=1;'') \<noteq>
     ''x=1;'' ! length (firstCommonSubstring ''x=2;'' ''x=1;'') \<and>
   prettyPrint toyToolchain ''x = 2;'' = Inr ''x=2;'' \<and>
   prettyPrint toyToolchain ''x = 1'' = Inr ''x=1;'' \<and>
   message (projl (catchBlock toyToolchain ''x = 2;'' ''x = 1'' JNull JNull (JsError [] [] ''at assert''))) =
     errMessage ''x=2;'' ''x=1;'' ''x='' 60 ''2;'' ''1;'' ''(diff)''"
proof -
  note t = firstCommonSubstring_longest_common_prefix [of "''x=2;''" "''x=1;''" toyToolchain
      "''x = 2;''" "''x=2;''" "''x = 1''" "''x=1;''" JNull JNull "JsError [] [] ''at assert''" 0]
  have l: "longest_common_prefix ''x=2;'' ''x=1;'' = ''x=''" by simp
  from t l have a: "firstCommonSubstring ''x=2;'' ''x=1;'' = ''x=''" by simp
  have p: "prefix ''x'' ''x=2;'' \<and> prefix ''x'' ''x=1;''" by simp
  with t have b: "prefix ''x'' (firstCommonSubstring ''x=2;'' ''x=1;'')" by blast
  have n: "length (firstCommonSubstring ''x=2;'' ''x=1;'') < length ''x=2;'' \<and>
      length (firstCommonSubstring ''x=2;'' ''x=1;'') < length ''x=1;''"
    unfolding a by simp
  with t have c: "''x=2;'' ! length (firstCommonSubstring ''x=2;'' ''x=1;'') \<noteq>
     ''x=1;'' ! length (firstCommonSubstring ''x=2;'' ''x=1;'')" by blast
  note q = toy_pretty_2 toy_pretty_1
  from t q have "catchBlock toyToolchain ''x = 2;'' ''x = 1'' JNull JNull (JsError [] [] ''at assert'') =
        Inl (JsError ''Error''
          (errMessage ''x=2;'' ''x=1;'' (firstCommonSubstring ''x=2;'' ''x=1;'') 60
             (take 60 (drop (length (firstCommonSubstring ''x=2;'' ''x=1;'')) ''x=2;''))
             (take 60 (drop (length (firstCommonSubstring ''x=2;'' ''x=1;'')) ''x=1;''))
             (jsonDiff_diffString toyToolchain JNull JNull))
          (stack (JsError [] [] ''at assert'')))"
    by blast
  then have d: "message (projl (catchBlock toyToolchain ''x = 2;'' ''x = 1'' JNull JNull (JsError [] [] ''at assert''))) =
     errMessage ''x=2;'' ''x=1;'' ''x='' 60 ''2;'' ''1;'' ''(diff)''"
    unfolding a by (simp add: toyToolchain_def)
  from a p b n c q d show ?thesis by blast
qed

text \<open>
  C7. When the comparison of the two trees fails with an error \<open>e\<close>, assertSourceAstEqual
  throws a new Error whose message is the assembled report (the text that the second
  conjunct gives, with the renderings, the common string, the excerpts and the diff in
  its places) and whose stack is the stack of \<open>e\<close>.
\<close>

theorem mismatch_error_keeps_stack:
  assumes "normalize_spec tc expected options = Inr expectedTree"
    and "normalize_spec tc actual options = Inr actualTree"
    and "deepStrictEqual tc actualTree expectedTree = Inl e"
  shows "(\<exists>expectedFormattedCode actualFormattedCode.
     prettyPrint tc expected = Inr expectedFormattedCode \<and>
     prettyPrint tc actual = Inr actualFormattedCode \<and>
     assertSourceAstEqual tc expected actual options =
       Inl (JsError ''Error''
          (errMessage expectedFormattedCode actualFormattedCode
             (firstCommonSubstring expectedFormattedCode actualFormattedCode) 60
             (substr expectedFormattedCode
                (length (firstCommonSubstring expectedFormattedCode actualFormattedCode)) 60)
             (substr actualFormattedCode
                (length (firstCommonSubstring expectedFormattedCode actualFormattedCode)) 60)
             (jsonDiff_diffString tc actualTree expectedTree))
          (stack e))) \<and>
   errMessage expectedText actualText common 60 excerptExpected excerptActual astDiff =
     ''deepEqual node AST assert failed for the following code:\<newline>\<newline>'' @
     ''Expected output: <<<'' @ expectedText @ ''>>>\<newline>\<newline>'' @
     ''Actual output: <<<'' @ actualText @ ''>>>\<newline>\<newline>'' @
     ''First common string: <<<'' @ common @ ''>>>\<newline>\<newline>'' @
     ''The first difference is (60 chars max):\<newline>\<newline>'' @
     ''Expected : <<<'' @ excerptExpected @ ''>>>\<newline>\<newline>'' @
     ''Actual   : <<<'' @ excerptActual @ ''>>>\<newline>\<newline>'' @
     ''AST diff:\<newline>====\<newline>'' @ astDiff @ ''\<newline>====\<newline>''"
  using assert_mismatch [OF assms]
  by (simp add: firstCommonSubstring_lcp substr_def errMessage_text)

theorem mismatch_error_keeps_stack_witness:
  "normalize_spec toyToolchain ''x = 2;'' None =
     Inr (JObj [(''type'', JStr ''Program''), (''body'', JStr ''x=2'')]) \<and>
   normalize_spec toyToolchain ''x = 1'' None =
     Inr (JObj [(''type'', JStr ''Program''), (''body'', JStr ''x=1'')]) \<and>
   deepStrictEqual toyToolchain (JObj [(''type'', JStr ''Program''), (''body'', JStr ''x=1'')])
       (JObj [(''type'', JStr ''Program''), (''body'', JStr ''x=2'')]) =
     Inl (JsError ''AssertionError'' ''Expected values to be strictly deep-equal''
            ''at deepStrictEqual'') \<and>
   assertSourceAstEqual toyToolchain ''x = 2;'' ''x = 1'' None =
     Inl (JsError ''Error''
       ''deepEqual node AST assert failed for the following code:\<newline>\<newline>Expected output: <<<x=2;>>>\<newline>\<newline>Actual output: <<<x=1;>>>\<newline>\<newline>First common string: <<<x=>>>\<newline>\<newline>The first difference is (60 chars max):\<newline>\<newline>Expected : <<<2;>>>\<newline>\<newline>Actual   : <<<1;>>>\<newline>\<newline>AST diff:\<newline>====\<newline>(diff)\<newline>====\<newline>''
       ''at deepStrictEqual'')"
proof -
  let ?one = "JObj [(''type'', JStr ''Program''), (''body'', JStr ''x=1'')]"
  let ?two = "JObj [(''type'', JStr ''Program''), (''body'', JStr ''x=2'')]"
  let ?e = "JsError ''AssertionError'' ''Expected values to be strictly deep-equal''
            ''at deepStrictEqual''"
  have d: "deepStrictEqual toyToolchain ?one ?two = Inl ?e"
    by (simp add: deepStrictEqual_def toy_assertionError)
  note t = mismatch_error_keeps_stack [OF toy_normalize_2 toy_normalize_1 d,
      of "''x=2;''" "''x=1;''" "''x=''" "''2;''" "''1;''" "''(diff)''"]
  from t [THEN conjunct1]
  have "assertSourceAstEqual toyToolchain ''x = 2;'' ''x = 1'' None =
     Inl (JsError ''Error'' (errMessage ''x=2;'' ''x=1;'' ''x='' 60 ''2;'' ''1;'' ''(diff)'')
            ''at deepStrictEqual'')"
    by (clarsimp simp: toy_pretty_1 toy_pretty_2 toy_fcs substr_def toy_diff)
  also have "errMessage ''x=2;'' ''x=1;'' ''x='' 60 ''2;'' ''1;'' ''(diff)'' =
       ''deepEqual node AST assert failed for the following code:\<newline>\<newline>Expected output: <<<x=2;>>>\<newline>\<newline>Actual output: <<<x=1;>>>\<newline>\<newline>First common string: <<<x=>>>\<newline>\<newline>The first difference is (60 chars max):\<newline>\<newline>Expected : <<<2;>>>\<newline>\<newline>Actual   : <<<1;>>>\<newline>\<newline>AST diff:\<newline>====\<newline>(diff)\<newline>====\<newline>''"
    by (simp add: t [THEN conjunct2])
  finally have r: "assertSourceAstEqual toyToolchain ''x = 2;'' ''x = 1'' None =
     Inl (JsError ''Error''
       ''deepEqual node AST assert failed for the following code:\<newline>\<newline>Expected output: <<<x=2;>>>\<newline>\<newline>Actual output: <<<x=1;>>>\<newline>\<newline>First common string: <<<x=>>>\<newline>\<newline>The first difference is (60 chars max):\<newline>\<newline>Expected : <<<2;>>>\<newline>\<newline>Actual   : <<<1;>>>\<newline>\<newline>AST diff:\<newline>====\<newline>(diff)\<newline>====\<newline>''
       ''at deepStrictEqual'')" .
  show ?thesis
    by (intro conjI) (rule toy_normalize_2 toy_normalize_1 d r)+
qed

text \<open>
  C8. A parse error propagates as it is: when the parser rejects the expected source, or
  its canonical text, assertSourceAstEqual throws the parser's error; and when the
  expected side normalizes and the parser rejects the actual source, or its canonical
  text, likewise. The error is not replaced by a report.
\<close>

theorem parse_error_propagates:
  "parse tc sourceText = babelParser_parse tc sourceText
      \<lparr>sourceType = ''module'', plugins = [''flow'', ''jsx'']\<rparr> \<and>
   (parse tc expected = Inl e \<longrightarrow> assertSourceAstEqual tc expected actual options = Inl e) \<and>
   (normalizeSourceCode tc expected = Inr canonical \<and> parse tc canonical = Inl e \<longrightarrow>
      assertSourceAstEqual tc expected actual options = Inl e) \<and>
   (normalize_spec tc expected options = Inr expectedTree \<and> parse tc actual = Inl e \<longrightarrow>
      assertSourceAstEqual tc expected actual options = Inl e) \<and>
   (normalize_spec tc expected options = Inr expectedTree \<and>
    normalizeSourceCode tc actual = Inr canonical \<and> parse tc canonical = Inl e \<longrightarrow>
      assertSourceAstEqual tc expected actual options = Inl e)"
proof -
  have a: "parse tc expected = Inl e \<longrightarrow> assertSourceAstEqual tc expected actual options = Inl e"
    by (simp add: first_parse_error expected_failure)
  have b: "normalizeSourceCode tc expected = Inr canonical \<and> parse tc canonical = Inl e \<longrightarrow>
      assertSourceAstEqual tc expected actual options = Inl e"
    by (simp add: second_parse_error expected_failure)
  have c: "normalize_spec tc expected options = Inr expectedTree \<and> parse tc actual = Inl e \<longrightarrow>
      assertSourceAstEqual tc expected actual options = Inl e"
    by (simp add: first_parse_error actual_failure)
  have d: "normalize_spec tc expected options = Inr expectedTree \<and>
    normalizeSourceCode tc actual = Inr canonical \<and> parse tc canonical = Inl e \<longrightarrow>
      assertSourceAstEqual tc expected actual options = Inl e"
    by (simp add: second_parse_error actual_failure)
  from a b c d show ?thesis by (simp add: parse_def)
qed

theorem parse_error_propagates_witness:
  "parse toyToolchain ''x = !'' = Inl (JsError ''SyntaxError'' ''Unexpected token'' ''at toyParse'') \<and>
   assertSourceAstEqual toyToolchain ''x = !'' ''x = 1'' None =
     Inl (JsError ''SyntaxError'' ''Unexpected token'' ''at toyParse'') \<and>
   normalize_spec toyToolchain ''x = 1'' None =
     Inr (JObj [(''type'', JStr ''Program''), (''body'', JStr ''x=1'')]) \<and>
   assertSourceAstEqual toyToolchain ''x = 1'' ''x = !'' None =
     Inl (JsError ''SyntaxError'' ''Unexpected token'' ''at toyParse'') \<and>
   normalizeSourceCode oddToolchain ''x = ?'' = Inr ''!'' \<and>
   parse oddToolchain ''!'' = Inl (JsError ''SyntaxError'' ''Unexpected token'' ''at toyParse'') \<and>
   assertSourceAstEqual oddToolchain ''x = ?'' ''x = 1'' None =
     Inl (JsError ''SyntaxError'' ''Unexpected token'' ''at toyParse'') \<and>
   normalize_spec oddToolchain ''x = 1'' None =
     Inr (JObj [(''type'', JStr ''Program''), (''body'', JStr ''x=1'')]) \<and>
   assertSourceAstEqual oddToolchain ''x = 1'' ''x = ?'' None =
     Inl (JsError ''SyntaxError'' ''Unexpected token'' ''at toyParse'')"
proof -
  let ?e = "JsError ''SyntaxError'' ''Unexpected token'' ''at toyParse''"
  let ?one = "JObj [(''type'', JStr ''Program''), (''body'', JStr ''x=1'')]"
  have a: "assertSourceAstEqual toyToolchain ''x = !'' ''x = 1'' None = Inl ?e"
    by (rule parse_error_propagates [of toyToolchain _ "''x = !''" ?e "''x = 1''" None,
          THEN conjunct2, THEN conjunct1, THEN mp]) (rule toy_parse_bad)
  have b: "assertSourceAstEqual toyToolchain ''x = 1'' ''x = !'' None = Inl ?e"
    by (rule parse_error_propagates [of toyToolchain _ "''x = 1''" ?e "''x = !''" None _ ?one,
          THEN conjunct2, THEN conjunct2, THEN conjunct2, THEN conjunct1, THEN mp])
      (simp add: toy_normalize_1 toy_parse_bad)
  have c: "assertSourceAstEqual oddToolchain ''x = ?'' ''x = 1'' None = Inl ?e"
    by (rule parse_error_propagates [of oddToolchain _ "''x = ?''" ?e "''x = 1''" None "''!''",
          THEN conjunct2, THEN conjunct2, THEN conjunct1, THEN mp])
      (simp add: odd_canonical odd_parse)
  have d: "assertSourceAstEqual oddToolchain ''x = 1'' ''x = ?'' None = Inl ?e"
    by (rule parse_error_propagates [of oddToolchain _ "''x = 1''" ?e "''x = ?''" None "''!''" ?one,
          THEN conjunct2, THEN conjunct2, THEN conjunct2, THEN conjunct2, THEN mp])
      (simp add: odd_normalize_1 odd_canonical odd_parse)
  show ?thesis
    by (intro conjI)
      (rule toy_parse_bad a toy_normalize_1 b odd_canonical odd_parse c odd_normalize_1 d)+
qed

text \<open>
  C9. stripMeta is idempotent: stripping what a first call returned, with the same
  options, returns it unchanged; and where the first call throws (on \<^verbatim>\<open>null\<close> or
  \<^verbatim>\<open>undefined\<close>) there is no second one. As a function of its arguments it is
  deterministic.
\<close>

theorem stripMeta_idempotent:
  "bindE (stripMeta node options) (\<lambda>stripped. stripMeta stripped options) =
   stripMeta node options"
proof (cases "nullish node")
  case True
  then show ?thesis by (simp add: stripMeta_eq)
next
  case False
  then have "stripMeta node options = Inr (strip_spec (ignoreKeys options) node)"
    by (simp add: stripMeta_eq)
  moreover have "stripMeta (strip_spec (ignoreKeys options) node) options =
      Inr (strip_spec (ignoreKeys options) node)"
    using False by (simp add: stripMeta_eq nullish_without without_idem)
  ultimately show ?thesis by simp
qed

theorem stripMeta_idempotent_witness:
  "stripMeta exampleNode None = Inr (JObj [(''type'', JStr ''Identifier''), (''name'', JStr ''x'')]) \<and>
   stripMeta (JObj [(''type'', JStr ''Identifier''), (''name'', JStr ''x'')]) None =
     Inr (JObj [(''type'', JStr ''Identifier''), (''name'', JStr ''x'')]) \<and>
   stripMeta exampleNode (Some \<lparr>comments = Some True\<rparr>) =
     Inr (JObj [(''type'', JStr ''Identifier''), (''name'', JStr ''x''),
           (''leadingComments'',
              JArr [JObj [(''type'', JStr ''CommentBlock''), (''value'', JStr '' c '')]])]) \<and>
   stripMeta (JObj [(''type'', JStr ''Identifier''), (''name'', JStr ''x''),
           (''leadingComments'',
              JArr [JObj [(''type'', JStr ''CommentBlock''), (''value'', JStr '' c '')]])])
       (Some \<lparr>comments = Some True\<rparr>) =
     Inr (JObj [(''type'', JStr ''Identifier''), (''name'', JStr ''x''),
           (''leadingComments'',
              JArr [JObj [(''type'', JStr ''CommentBlock''), (''value'', JStr '' c '')]])])"
  using stripMeta_idempotent [of exampleNode None]
    stripMeta_idempotent [of exampleNode "Some \<lparr>comments = Some True\<rparr>"]
  by (simp add: exampleNode_def ignoreKeys_def IGNORE_KEYS_def keepComments_def
      deleteKeys_def deleteKey_def)

text \<open>
  C10. The default transform depends on the source alone: it returns the code of
  \<^verbatim>\<open>transformSync(source, {plugins})\<close> whatever its second argument, so a test gives
  the same verdict for any two per-entry options, and testCase the same verdicts for a
  table whatever options its entries are given.
\<close>

theorem default_transform_ignores_options:
  "getDefaultTransformForPlugins transformSync plugs source entryOptions =
     getDefaultTransformForPlugins transformSync plugs source entryOptions' \<and>
   getDefaultTransformForPlugins transformSync plugs source entryOptions =
     bindE (transformSync source plugs) (\<lambda>result. Inr (code result)) \<and>
   testBody tc (testInfo\<lparr>testOptions := entryOptions\<rparr>)
       (getDefaultTransformForPlugins transformSync plugs) options =
     testBody tc (testInfo\<lparr>testOptions := entryOptions'\<rparr>)
       (getDefaultTransformForPlugins transformSync plugs) options \<and>
   testCase tc transformSync name plugs
       (map (\<lambda>(test, testInfo). (test, testInfo\<lparr>testOptions := assign test\<rparr>)) testData) options =
     testCase tc transformSync name plugs testData options"
  by (simp add: testBody_default_options testCase_default_options)
    (simp add: getDefaultTransformForPlugins_def)

theorem default_transform_ignores_options_witness:
  "getDefaultTransformForPlugins toySync '';'' ''x = 1'' JUndefined = Inr ''x = 1;'' \<and>
   getDefaultTransformForPlugins toySync '';'' ''x = 1'' (JObj [(''reactNativeMode'', JBool True)]) =
     Inr ''x = 1;'' \<and>
   testCase toyToolchain toySync ''suite'' '';''
     [(''adds semicolon'', \<lparr>input = ''x = 1'', output' = ''x=1;'', throws = JUndefined,
         testOptions = JUndefined\<rparr>)] None =
     (''suite'', [(''adds semicolon'', True)]) \<and>
   testCase toyToolchain toySync ''suite'' '';''
     [(''adds semicolon'', \<lparr>input = ''x = 1'', output' = ''x=1;'', throws = JUndefined,
         testOptions = JObj [(''reactNativeMode'', JBool True)]\<rparr>)] None =
     (''suite'', [(''adds semicolon'', True)])"
proof -
  let ?table = "[(''adds semicolon'', \<lparr>input = ''x = 1'', output' = ''x=1;'', throws = JUndefined,
         testOptions = JUndefined\<rparr>)]"
  note t = default_transform_ignores_options [of toySync "'';''" "''x = 1''" JUndefined
      "JObj [(''reactNativeMode'', JBool True)]" toyToolchain _ None "''suite''"
      "\<lambda>test. JObj [(''reactNativeMode'', JBool True)]" ?table]
  have a: "getDefaultTransformForPlugins toySync '';'' ''x = 1'' JUndefined = Inr ''x = 1;''"
    by (simp add: t [THEN conjunct2, THEN conjunct1] toySync_def)
  have b: "getDefaultTransformForPlugins toySync '';'' ''x = 1''
      (JObj [(''reactNativeMode'', JBool True)]) = Inr ''x = 1;''"
    using t [THEN conjunct1] a by simp
  have c: "testCase toyToolchain toySync ''suite'' '';'' ?table None =
      (''suite'', [(''adds semicolon'', True)])"
    using toy_adds_semicolon [of JUndefined]
    by (simp add: testCase_def testSection_def toyTransform_def)
  have d: "testCase toyToolchain toySync ''suite'' '';''
     [(''adds semicolon'', \<lparr>input = ''x = 1'', output' = ''x=1;'', throws = JUndefined,
         testOptions = JObj [(''reactNativeMode'', JBool True)]\<rparr>)] None =
     (''suite'', [(''adds semicolon'', True)])"
    using t [THEN conjunct2, THEN conjunct2, THEN conjunct2] c by simp
  show ?thesis
    by (intro conjI) (rule a b c d)+
qed

end
